theory Spec2Isabelle
  imports Complex_Main "HOL-Library.Sublist" "HOL-Library.AList"
begin

section \<open>Python values\<close>

text \<open>
  The program is \<^verbatim>\<open>script/sync_prod_to_gcp/submissions_to_gcp.py\<close>. A decoded message is
  whatever \<^verbatim>\<open>json.loads\<close> returns, so the fields of a message are values of any JSON
  type. \<open>JNull\<close> is Python's \<^verbatim>\<open>None\<close>, \<open>JNonFinite\<close> stands for the floats
  \<^verbatim>\<open>nan\<close>, \<^verbatim>\<open>inf\<close> and \<^verbatim>\<open>-inf\<close>, and \<open>JObject\<close> holds the items of a
  \<^verbatim>\<open>dict\<close>. Strings are lists of HOL characters.
\<close>

datatype json =
    JNull
  | JBool bool
  | JInt int
  | JFloat real
  | JNonFinite
  | JStr string
  | JArray "json list"
  | JObject "(string \<times> json) list"

text \<open>
  Every exception class the program raises or lets through. \<open>External\<close> is an
  exception raised by code outside the file (the identifier class, the sibling module
  \<^verbatim>\<open>sync_published_to_gcp\<close>, the gzip reader, the object store client), tagged with a name.
\<close>

datatype exn =
    InvalidVersion
  | MissingGeneratedFile
  | AttributeError
  | TypeError
  | AssertionError
  | ZeroDivisionError
  | External string

text \<open>\<^verbatim>\<open>str.isspace\<close> on the characters a HOL \<open>char\<close> can hold.\<close>

definition is_space :: "char \<Rightarrow> bool" where
  "is_space c = (c \<in> set [CHR 0x09, CHR 0x0A, CHR 0x0B, CHR 0x0C, CHR 0x0D, CHR 0x1C,
     CHR 0x1D, CHR 0x1E, CHR 0x1F, CHR 0x20, CHR 0x85, CHR 0xA0])"

definition is_digit :: "char \<Rightarrow> bool" where
  "is_digit c = (c \<in> set ''0123456789'')"

definition digit_val :: "char \<Rightarrow> nat" where
  "digit_val c = of_char c - 48"

text \<open>\<^verbatim>\<open>str.strip()\<close>\<close>

definition py_strip :: "string \<Rightarrow> string" where
  "py_strip s = rev (dropWhile is_space (rev (dropWhile is_space s)))"

text \<open>
  The digit part of an integer literal as \<^verbatim>\<open>int(str)\<close> reads it: decimal digits, with
  single underscores allowed between two digits.
\<close>

fun grouped :: "string \<Rightarrow> bool" where
  "grouped [] = False"
| "grouped [c] = is_digit c"
| "grouped (c # d # cs) =
     (is_digit c \<and> (if d = CHR ''_'' then grouped cs else grouped (d # cs)))"

definition parse_digits :: "string \<Rightarrow> nat option" where
  "parse_digits s =
     (if grouped s
      then Some (fold (\<lambda>c n. 10 * n + digit_val c) (filter (\<lambda>c. c \<noteq> CHR ''_'') s) 0)
      else None)"

definition py_int_str :: "string \<Rightarrow> int option" where
  "py_int_str s =
     (case py_strip s of
        [] \<Rightarrow> None
      | c # r \<Rightarrow>
          if c = CHR ''+'' then map_option int (parse_digits r)
          else if c = CHR ''-'' then map_option (\<lambda>n. - int n) (parse_digits r)
          else map_option int (parse_digits (c # r)))"

text \<open>
  \<^verbatim>\<open>int(x)\<close>: \<open>None\<close> when it raises (\<^verbatim>\<open>ValueError\<close>, \<^verbatim>\<open>TypeError\<close>,
  \<^verbatim>\<open>OverflowError\<close>). A float is truncated towards zero. The interpreter's limit on
  the number of digits of a string is not modelled.
\<close>

fun py_int :: "json \<Rightarrow> int option" where
  "py_int (JInt i) = Some i"
| "py_int (JBool b) = Some (if b then 1 else 0)"
| "py_int (JFloat r) = Some (if 0 \<le> r then \<lfloor>r\<rfloor> else \<lceil>r\<rceil>)"
| "py_int (JStr s) = py_int_str s"
| "py_int JNonFinite = None"
| "py_int JNull = None"
| "py_int (JArray xs) = None"
| "py_int (JObject kvs) = None"

text \<open>Truth value of an object, as \<^verbatim>\<open>if x:\<close> and \<^verbatim>\<open>not x\<close> test it.\<close>

fun py_truthy :: "json \<Rightarrow> bool" where
  "py_truthy JNull = False"
| "py_truthy (JBool b) = b"
| "py_truthy (JInt i) = (i \<noteq> 0)"
| "py_truthy (JFloat r) = (r \<noteq> 0)"
| "py_truthy JNonFinite = True"
| "py_truthy (JStr s) = (s \<noteq> [])"
| "py_truthy (JArray xs) = (xs \<noteq> [])"
| "py_truthy (JObject kvs) = (kvs \<noteq> [])"

text \<open>\<^verbatim>\<open>str(n)\<close> of an integer: its decimal digits.\<close>

definition digit_char :: "nat \<Rightarrow> char" where
  "digit_char d = ''0123456789'' ! d"

fun dec_nat :: "nat \<Rightarrow> string" where
  "dec_nat n =
     (if n < 10 then [digit_char n] else dec_nat (n div 10) @ [digit_char (n mod 10)])"

definition py_str_int :: "int \<Rightarrow> string" where
  "py_str_int i = (if i < 0 then CHR ''-'' # dec_nat (nat (- i)) else dec_nat (nat i))"

section \<open>What the program imports\<close>

text \<open>
  The class \<^verbatim>\<open>identifier.Identifier\<close> is not part of the file: an identifier is the
  record of the attributes the program reads, and the constructor is a parameter.
\<close>

record arxiv_identifier =
  ids :: string
  idv :: string
  filename :: string
  yymm :: string
  archive :: string
  has_version :: bool
  is_old_id :: bool

text \<open>
  What the program reads from the legacy host: \<^verbatim>\<open>os.path.exists\<close>, the lines of a text
  file (\<open>None\<close> when opening or decoding it raises), the member names of a tarball
  (\<open>None\<close> when \<^verbatim>\<open>tarfile.open\<close> raises), the text of a gzip file read as ASCII (or the
  exception the read raises), and the bytes of a file for an upload.
\<close>

record filesystem =
  path_exists :: "string \<Rightarrow> bool"
  read_lines :: "string \<Rightarrow> string list option"
  tar_names :: "string \<Rightarrow> string list option"
  gz_text :: "string \<Rightarrow> exn + string"
  file_bytes :: "string \<Rightarrow> nat list option"

text \<open>
  The value under the key \<^verbatim>\<open>"cit"\<close> of an entry: a path string, or a bound method
  object (named by the method).
\<close>

datatype pyobj = PyStr string | PyBoundMethod string

text \<open>
  The names imported from \<^verbatim>\<open>sync_published_to_gcp\<close> and the library functions whose
  code is not in the file are the fields of one record of parameters:
  the path prefixes, the table of worker hosts, \<^verbatim>\<open>path_to_bucket_key\<close>, the two
  generation requests (each returns or raises, and may change the files on the host), the
  constructor \<^verbatim>\<open>Identifier\<close>, \<^verbatim>\<open>str()\<close> of floats and containers,
  \<^verbatim>\<open>bytes.decode('utf-8')\<close> (\<open>None\<close> is \<^verbatim>\<open>UnicodeDecodeError\<close>), \<^verbatim>\<open>json.loads\<close>,
  and the checksum of the object store where it has one.
\<close>

record externals =
  Identifier :: "json \<Rightarrow> exn + arxiv_identifier"
  path_to_bucket_key :: "pyobj \<Rightarrow> exn + string"
  FTP_PREFIX :: string
  ORIG_PREFIX :: string
  PS_CACHE_PREFIX :: string
  CONCURRENCY_PER_WEBNODE :: "(string \<times> nat) list"
  ensure_pdf :: "string \<Rightarrow> string \<Rightarrow> arxiv_identifier \<Rightarrow> filesystem \<Rightarrow> (exn + unit) \<times> filesystem"
  ensure_html :: "string \<Rightarrow> string \<Rightarrow> arxiv_identifier \<Rightarrow> filesystem \<Rightarrow> (exn + unit) \<times> filesystem"
  py_repr :: "json \<Rightarrow> string"
  utf8_decode :: "nat list \<Rightarrow> string option"
  json_loads :: "string \<Rightarrow> exn + json"
  checksum :: "(nat list \<Rightarrow> nat) option"

text \<open>\<^verbatim>\<open>str(x)\<close>, as an f-string formats a value.\<close>

definition py_str :: "externals \<Rightarrow> json \<Rightarrow> string" where
  "py_str X j =
     (case j of
        JNull \<Rightarrow> ''None''
      | JBool b \<Rightarrow> (if b then ''True'' else ''False'')
      | JInt i \<Rightarrow> py_str_int i
      | JStr s \<Rightarrow> s
      | _ \<Rightarrow> py_repr X j)"

section \<open>The file state of a submission\<close>

definition submission_exts :: "string list" where
  "submission_exts = [''.tar.gz'', ''.gz'', ''.pdf'', ''.html.gz'']"

record file_state =
  xid :: arxiv_identifier
  vxid :: arxiv_identifier
  src_ext :: json
  source_format :: json
  source_flags :: string
  single_source :: bool
  state_archive :: string
  publish_type :: json
  version :: json
  ext_candidates :: "json list"
  prev_version :: int
  top_levels :: "string list"

text \<open>
  \<^verbatim>\<open>SubmissionFilesState.__init__\<close>. The bare \<^verbatim>\<open>except\<close> around the version test
  turns every exception of \<^verbatim>\<open>int(version)\<close>, and the \<^verbatim>\<open>InvalidVersion\<close> raised inside
  the \<^verbatim>\<open>try\<close>, into \<^verbatim>\<open>InvalidVersion\<close>.
\<close>

definition SubmissionFilesState ::
  "externals \<Rightarrow> json \<Rightarrow> json \<Rightarrow> json \<Rightarrow> json \<Rightarrow> json \<Rightarrow> exn + file_state" where
  "SubmissionFilesState X arxiv_id_str ver ptype ext fmt =
     (case py_int ver of
        None \<Rightarrow> Inl InvalidVersion
      | Some v \<Rightarrow>
          if v \<le> 0 then Inl InvalidVersion
          else
            (case Identifier X arxiv_id_str of
               Inl e \<Rightarrow> Inl e
             | Inr x \<Rightarrow>
                 (case (if has_version x then Inr x
                        else Identifier X (JStr (py_str X arxiv_id_str @ ''v'' @ py_str X ver))) of
                    Inl e \<Rightarrow> Inl e
                  | Inr vx \<Rightarrow>
                      Inr \<lparr> xid = x, vxid = vx, src_ext = ext, source_format = fmt,
                            source_flags = [], single_source = False,
                            state_archive = (if \<not> is_old_id x then ''arxiv'' else archive x),
                            publish_type = ptype, version = ver,
                            ext_candidates =
                              (let c = map JStr submission_exts in
                               if py_truthy ext
                               then ext # (if ext \<in> set (tl c) then remove1 ext c else c)
                               else c),
                            prev_version = max 1 (v - 1),
                            top_levels = [] \<rparr>)))"

definition latest_dir :: "externals \<Rightarrow> file_state \<Rightarrow> string" where
  "latest_dir X st = FTP_PREFIX X @ state_archive st @ ''/papers/'' @ yymm (xid st)"

definition gz_source :: "externals \<Rightarrow> file_state \<Rightarrow> string" where
  "gz_source X st =
     FTP_PREFIX X @ state_archive st @ ''/papers/'' @ yymm (xid st) @ ''/'' @ filename (xid st) @ ''.gz''"

definition tgz_source :: "externals \<Rightarrow> file_state \<Rightarrow> string" where
  "tgz_source X st =
     FTP_PREFIX X @ state_archive st @ ''/papers/'' @ yymm (xid st) @ ''/'' @ filename (xid st)
       @ ''.tar.gz''"

definition ps_cache_pdf_file :: "externals \<Rightarrow> file_state \<Rightarrow> string" where
  "ps_cache_pdf_file X st =
     PS_CACHE_PREFIX X @ state_archive st @ ''/pdf/'' @ yymm (xid st) @ ''/'' @ idv (vxid st) @ ''.pdf''"

text \<open>
  The method \<^verbatim>\<open>html_file(self, files)\<close>: what it would return if it were called.
\<close>

definition html_file :: "externals \<Rightarrow> file_state \<Rightarrow> string" where
  "html_file X st =
     PS_CACHE_PREFIX X @ state_archive st @ ''/html/'' @ yymm (xid st) @ ''/'' @ idv (vxid st) @ ''/''"

definition versioned_parent :: "externals \<Rightarrow> file_state \<Rightarrow> string" where
  "versioned_parent X st = ORIG_PREFIX X @ state_archive st @ ''/papers/'' @ yymm (xid st)"

definition source_path :: "externals \<Rightarrow> file_state \<Rightarrow> json \<Rightarrow> string" where
  "source_path X st dotext = latest_dir X st @ ''/'' @ filename (xid st) @ py_str X dotext"

definition prev_source_path :: "externals \<Rightarrow> file_state \<Rightarrow> json \<Rightarrow> string" where
  "prev_source_path X st dotext =
     versioned_parent X st @ ''/'' @ filename (xid st) @ ''v'' @ py_str_int (prev_version st)
       @ py_str X dotext"


section \<open>The source-type code of the abs file\<close>

text \<open>
  \<^verbatim>\<open>RE_DATE_COMPONENTS.match(line)\<close> and its group \<^verbatim>\<open>source_type\<close>. The pattern is
  \<^verbatim>\<open>^Date\s*(?::|\(revised\s*(?P<version>.*?)\):)\s*(?P<date>.*?)\<close>
  \<^verbatim>\<open>(?:\s+\((?P<size_kilobytes>\d+)kb,?(?P<source_type>.*)\))?$\<close>.
  The functions follow the order in which the matcher tries the alternatives: the header
  first (a colon, or \<^verbatim>\<open>(revised\<close> up to the first \<^verbatim>\<open>):\<close>), then, for the shortest date
  first, the parenthesised size group, which has to end the line.
\<close>

definition strip_prefix :: "string \<Rightarrow> string \<Rightarrow> string option" where
  "strip_prefix p s = (if prefix p s then Some (drop (length p) s) else None)"

fun after_version :: "string \<Rightarrow> string option" where
  "after_version [] = None"
| "after_version (c # cs) =
     (if prefix ''):'' (c # cs) then Some (drop 2 (c # cs)) else after_version cs)"

definition match_date_header :: "string \<Rightarrow> string option" where
  "match_date_header s =
     (case strip_prefix ''Date'' s of
        None \<Rightarrow> None
      | Some r \<Rightarrow>
          (let r1 = dropWhile is_space r in
           case strip_prefix '':'' r1 of
             Some r2 \<Rightarrow> Some r2
           | None \<Rightarrow>
               (case strip_prefix ''(revised'' r1 of
                  None \<Rightarrow> None
                | Some r3 \<Rightarrow> after_version (dropWhile is_space r3))))"

definition match_size_group :: "string \<Rightarrow> string option" where
  "match_size_group s =
     (let r1 = dropWhile is_space s in
      if r1 = s then None
      else
        (case strip_prefix ''('' r1 of
           None \<Rightarrow> None
         | Some r2 \<Rightarrow>
             (let r3 = dropWhile is_digit r2 in
              if r3 = r2 then None
              else
                (case strip_prefix ''kb'' r3 of
                   None \<Rightarrow> None
                 | Some r4 \<Rightarrow>
                     (let t = (case r4 of [] \<Rightarrow> r4 | c # r5 \<Rightarrow> if c = CHR '','' then r5 else r4)
                      in if t \<noteq> [] \<and> last t = CHR '')'' then Some (butlast t) else None)))))"

fun find_size_group :: "string \<Rightarrow> string option" where
  "find_size_group [] = None"
| "find_size_group (c # cs) =
     (case match_size_group (c # cs) of
        Some t \<Rightarrow> Some t
      | None \<Rightarrow> find_size_group cs)"

text \<open>
  \<open>None\<close>: the line does not match. \<open>Some None\<close>: it matches and the group
  \<^verbatim>\<open>source_type\<close> took no part, so \<^verbatim>\<open>group('source_type')\<close> is \<^verbatim>\<open>None\<close>.
\<close>

definition re_date_source_type :: "string \<Rightarrow> string option option" where
  "re_date_source_type line =
     (case match_date_header line of
        None \<Rightarrow> None
      | Some r \<Rightarrow> Some (find_size_group (dropWhile is_space r)))"

definition flag_to_source_format :: "char \<Rightarrow> string option" where
  "flag_to_source_format =
     map_of [(CHR ''D'', ''pdftex''), (CHR ''H'', ''html''), (CHR ''I'', ''withdrawn''),
             (CHR ''O'', ''odf''), (CHR ''P'', ''ps''), (CHR ''X'', ''docx'')]"

text \<open>
  The loop over the lines of the abs file: it stops at the first blank line and keeps
  the stripped lines that start with \<^verbatim>\<open>Date\<close>.
\<close>

fun date_lines :: "string list \<Rightarrow> string list" where
  "date_lines [] = []"
| "date_lines (l # ls) =
     (let sline = py_strip l in
      if sline = [] then []
      else if prefix ''Date'' sline then sline # date_lines ls
      else date_lines ls)"

text \<open>
  The loop over the characters of the source-type code. \<^verbatim>\<open>self.source_flags\<close> is the
  string \<^verbatim>\<open>""\<close> set by the constructor, and a \<^verbatim>\<open>str\<close> has no \<^verbatim>\<open>append\<close>: the
  statement \<^verbatim>\<open>self.source_flags.append(source_flag)\<close> raises \<^verbatim>\<open>AttributeError\<close>.
\<close>

fun scan_source_type :: "string \<Rightarrow> file_state \<Rightarrow> exn + file_state" where
  "scan_source_type [] st = Inr st"
| "scan_source_type (source_flag # rest) st =
     (case flag_to_source_format source_flag of
        Some f \<Rightarrow> scan_source_type rest (st\<lparr>source_format := JStr f\<rparr>)
      | None \<Rightarrow>
          if source_flag \<in> set ''SAB'' then Inl AttributeError
          else scan_source_type rest st)"

text \<open>
  The table \<^verbatim>\<open>src_ext_to_source_format\<close>: the value under \<^verbatim>\<open>'.gz'\<close> is itself a dict.
  Looking up a list or a dict raises \<^verbatim>\<open>TypeError\<close> (unhashable).
\<close>

datatype format_entry = Format string | ByFormat

definition src_ext_to_source_format :: "json \<Rightarrow> exn + format_entry option" where
  "src_ext_to_source_format ext =
     (case ext of
        JArray xs \<Rightarrow> Inl TypeError
      | JObject kvs \<Rightarrow> Inl TypeError
      | JNull \<Rightarrow> Inr (Some (Format ''tex''))
      | JStr s \<Rightarrow>
          Inr (if s = ''.html.gz'' then Some (Format ''html'')
               else if s = ''.ps.gz'' then Some (Format ''ps'')
               else if s = ''.pdf'' then Some (Format ''pdf'')
               else if s = ''.gz'' then Some ByFormat
               else None)
      | _ \<Rightarrow> Inr None)"

text \<open>The inner dict \<^verbatim>\<open>{'pdftex': 'pdftex', None: 'tex'}\<close> and its \<^verbatim>\<open>get\<close>.\<close>

definition gz_format_get :: "json \<Rightarrow> exn + string option" where
  "gz_format_get fmt =
     (case fmt of
        JArray xs \<Rightarrow> Inl TypeError
      | JObject kvs \<Rightarrow> Inl TypeError
      | JNull \<Rightarrow> Inr (Some ''tex'')
      | JStr s \<Rightarrow> Inr (if s = ''pdftex'' then Some ''pdftex'' else None)
      | _ \<Rightarrow> Inr None)"

definition maybe_update_metadata :: "externals \<Rightarrow> filesystem \<Rightarrow> file_state \<Rightarrow> exn + file_state" where
  "maybe_update_metadata X fs st =
     (let st1 =
        (if \<not> py_truthy (src_ext st)
         then (case find (\<lambda>ext. path_exists fs (source_path X st ext)) (ext_candidates st) of
                 Some ext \<Rightarrow> st\<lparr>src_ext := ext\<rparr>
               | None \<Rightarrow> st)
         else st)
      in
      if py_truthy (source_format st1) then Inr st1
      else
        (let dates = (case read_lines fs (source_path X st1 (JStr ''.abs'')) of
                        None \<Rightarrow> []
                      | Some ls \<Rightarrow> date_lines ls)
         in
         case (if dates \<noteq> []
               then (case re_date_source_type (last dates) of
                       None \<Rightarrow> Inr st1
                     | Some None \<Rightarrow> Inl TypeError
                     | Some (Some source_type) \<Rightarrow> scan_source_type source_type st1)
               else Inr st1) of
           Inl e \<Rightarrow> Inl e
         | Inr st2 \<Rightarrow>
             (let st3 = st2\<lparr>single_source := (src_ext st2 \<noteq> JStr ''.tar.gz'')\<rparr> in
              if \<not> single_source st3
              then (if \<not> py_truthy (source_format st3)
                    then Inr (st3\<lparr>source_format := JStr ''tex''\<rparr>)
                    else Inr st3)
              else
                (case src_ext_to_source_format (src_ext st3) of
                   Inl e \<Rightarrow> Inl e
                 | Inr None \<Rightarrow> Inr st3
                 | Inr (Some (Format f)) \<Rightarrow> Inr (st3\<lparr>source_format := JStr f\<rparr>)
                 | Inr (Some ByFormat) \<Rightarrow>
                     (case gz_format_get (source_format st3) of
                        Inl e \<Rightarrow> Inl e
                      | Inr None \<Rightarrow> Inr (st3\<lparr>source_format := JStr ''tex''\<rparr>)
                      | Inr (Some f) \<Rightarrow> Inr (st3\<lparr>source_format := JStr f\<rparr>))))))"

text \<open>
  \<^verbatim>\<open>is_tex_submission\<close> and \<^verbatim>\<open>is_html_submission\<close>, with their two assertions.
\<close>

definition is_tex_submission :: "file_state \<Rightarrow> exn + bool" where
  "is_tex_submission st =
     (if \<not> py_truthy (src_ext st) then Inl AssertionError
      else if \<not> py_truthy (source_format st) then Inl AssertionError
      else Inr (source_format st \<in> set [JStr ''tex'', JStr ''pdftex'']))"

definition is_html_submission :: "file_state \<Rightarrow> exn + bool" where
  "is_html_submission st =
     (if \<not> py_truthy (src_ext st) then Inl AssertionError
      else if \<not> py_truthy (source_format st) then Inl AssertionError
      else Inr (source_format st = JStr ''html''))"

text \<open>
  \<^verbatim>\<open>get_tgz_top_levels\<close> caches the member names of the tarball in the state; a tarball
  that cannot be opened leaves the cache empty.
\<close>

definition get_tgz_top_levels :: "externals \<Rightarrow> filesystem \<Rightarrow> file_state \<Rightarrow> file_state" where
  "get_tgz_top_levels X fs st =
     (if top_levels st = []
      then (if path_exists fs (tgz_source X st)
            then (case tar_names fs (tgz_source X st) of
                    Some names \<Rightarrow> st\<lparr>top_levels := names\<rparr>
                  | None \<Rightarrow> st)
            else st)
      else st)"

definition is_removed :: "externals \<Rightarrow> filesystem \<Rightarrow> file_state \<Rightarrow> bool \<times> file_state" where
  "is_removed X fs st =
     (let st' = get_tgz_top_levels X fs st in (''removed.txt'' \<in> set (top_levels st'), st'))"

definition needle :: string where
  "needle = ''%auto-ignore''"

text \<open>\<^verbatim>\<open>is_ignored\<close> logs an exception of the gzip read and raises it again.\<close>

definition is_ignored :: "externals \<Rightarrow> filesystem \<Rightarrow> file_state \<Rightarrow> exn + bool" where
  "is_ignored X fs st =
     (if path_exists fs (gz_source X st)
      then (case gz_text fs (gz_source X st) of
              Inl e \<Rightarrow> Inl e
            | Inr text \<Rightarrow> Inr (prefix needle (take (length needle) text)))
      else Inr False)"


section \<open>The expected files\<close>

text \<open>
  An entry of \<^verbatim>\<open>get_expected_files\<close> is a dict with the keys \<^verbatim>\<open>type\<close>, \<^verbatim>\<open>cit\<close>,
  \<^verbatim>\<open>status\<close> and, set by the last loop of the method, \<^verbatim>\<open>gcp\<close>.
\<close>

type_synonym file_entry = "string \<times> pyobj \<times> string"

record entry =
  etype :: string
  cit :: pyobj
  status :: string
  gcp :: string

definition current :: "string \<Rightarrow> pyobj \<Rightarrow> file_entry" where
  "current t c = (t, c, ''current'')"

definition obsolete :: "string \<Rightarrow> pyobj \<Rightarrow> file_entry" where
  "obsolete t c = (t, c, ''obsolete'')"

text \<open>
  The first half of \<^verbatim>\<open>get_expected_files\<close>: the current entries. The entry of type
  \<^verbatim>\<open>html-cache\<close> is built from \<^verbatim>\<open>self.html_file\<close>, which is a method and is not
  called there: the value stored under \<^verbatim>\<open>cit\<close> is the bound method.
\<close>

definition current_files ::
  "externals \<Rightarrow> filesystem \<Rightarrow> file_state \<Rightarrow> exn + (file_entry list \<times> file_state)" where
  "current_files X fs st =
     (let files = [current ''abstract'' (PyStr (source_path X st (JStr ''.abs'')))];
          (removed, st1) = is_removed X fs st
      in
      if removed then Inr (files @ [current ''submission'' (PyStr (tgz_source X st1))], st1)
      else
        (case is_ignored X fs st1 of
           Inl e \<Rightarrow> Inl e
         | Inr True \<Rightarrow> Inr (files @ [current ''submission'' (PyStr (gz_source X st1))], st1)
         | Inr False \<Rightarrow>
             (case maybe_update_metadata X fs st1 of
                Inl e \<Rightarrow> Inl e
              | Inr st2 \<Rightarrow>
                  (let files2 =
                     files @ [current ''submission'' (PyStr (source_path X st2 (src_ext st2)))]
                   in
                   case is_tex_submission st2 of
                     Inl e \<Rightarrow> Inl e
                   | Inr True \<Rightarrow>
                       Inr (files2 @ [current ''pdf-cache'' (PyStr (ps_cache_pdf_file X st2))], st2)
                   | Inr False \<Rightarrow>
                       (case is_html_submission st2 of
                          Inl e \<Rightarrow> Inl e
                        | Inr True \<Rightarrow>
                            Inr (files2 @ [current ''html-cache'' (PyBoundMethod ''html_file'')], st2)
                        | Inr False \<Rightarrow> Inr (files2, st2))))))"

text \<open>
  The second half: the obsolete entries of a replacement or a withdrawal. The
  \<^verbatim>\<open>for ... else\<close> takes the first extension of \<^verbatim>\<open>submission_exts\<close> whose
  previous-version path exists, and \<^verbatim>\<open>self.src_ext\<close> when none does.
\<close>

definition obsolete_files :: "externals \<Rightarrow> filesystem \<Rightarrow> file_state \<Rightarrow> file_entry list" where
  "obsolete_files X fs st =
     (if publish_type st \<in> set [JStr ''rep'', JStr ''wdr'']
      then [obsolete ''abstract'' (PyStr (prev_source_path X st (JStr ''.abs''))),
            (case find (\<lambda>dotext. path_exists fs (prev_source_path X st (JStr dotext)))
                    submission_exts of
               Some dotext \<Rightarrow> obsolete ''submission'' (PyStr (prev_source_path X st (JStr dotext)))
             | None \<Rightarrow> obsolete ''submission'' (PyStr (prev_source_path X st (src_ext st))))]
      else [])"

fun add_gcp :: "externals \<Rightarrow> file_entry list \<Rightarrow> exn + entry list" where
  "add_gcp X [] = Inr []"
| "add_gcp X ((t, c, s) # rest) =
     (case path_to_bucket_key X c of
        Inl e \<Rightarrow> Inl e
      | Inr k \<Rightarrow>
          (case add_gcp X rest of
             Inl e \<Rightarrow> Inl e
           | Inr es \<Rightarrow> Inr (\<lparr>etype = t, cit = c, status = s, gcp = k\<rparr> # es)))"

text \<open>
  \<^verbatim>\<open>get_expected_files\<close> returns the entries and leaves the state updated
  (the cached tarball names, and what \<^verbatim>\<open>maybe_update_metadata\<close> found).
\<close>

definition get_expected_files ::
  "externals \<Rightarrow> filesystem \<Rightarrow> file_state \<Rightarrow> exn + (entry list \<times> file_state)" where
  "get_expected_files X fs st =
     (case current_files X fs st of
        Inl e \<Rightarrow> Inl e
      | Inr (files, st') \<Rightarrow>
          (case add_gcp X (files @ obsolete_files X fs st') of
             Inl e \<Rightarrow> Inl e
           | Inr es \<Rightarrow> Inr (es, st')))"

section \<open>The world the handler acts on\<close>

text \<open>
  The calls that leave the process, in the order they are made: a generation request
  (kind, host, protocol), the listing of a prefix, an upload that transfers bytes (key and
  size), an upload skipped as unchanged, a rename, and the answer to the broker.
\<close>

datatype event =
    EvEnsure string string string
  | EvList string
  | EvUpload string nat
  | EvSkip string
  | EvRename string string
  | EvAck
  | EvNack

text \<open>
  The files of the legacy host, the objects of the bucket (key and bytes), the global
  \<^verbatim>\<open>WEBNODE_REQUEST_COUNT\<close>, and the calls made so far.
\<close>

record world =
  fsys :: filesystem
  bucket :: "(string \<times> nat list) list"
  WEBNODE_REQUEST_COUNT :: int
  trace :: "event list"

definition emit :: "event \<Rightarrow> world \<Rightarrow> world" where
  "emit ev w = w\<lparr>trace := trace w @ [ev]\<rparr>"

section \<open>Ensuring the generated files\<close>

text \<open>
  The round-robin step: the counter moves on, the host is the one at the index the
  counter had when the function was entered. An empty table makes the modulus raise.
\<close>

definition pick_webnode :: "externals \<Rightarrow> int \<Rightarrow> world \<Rightarrow> exn + ((string \<times> nat) \<times> world)" where
  "pick_webnode X my_tag w =
     (let n_webnodes = int (length (CONCURRENCY_PER_WEBNODE X)) in
      if n_webnodes = 0 then Inl ZeroDivisionError
      else
        Inr (CONCURRENCY_PER_WEBNODE X ! nat (min (n_webnodes - 1) (max 0 my_tag)),
             w\<lparr>WEBNODE_REQUEST_COUNT := (WEBNODE_REQUEST_COUNT w + 1) mod n_webnodes\<rparr>))"

text \<open>
  The body the loop of \<^verbatim>\<open>submission_message_to_file_state\<close> runs for an entry of type
  \<^verbatim>\<open>pdf-cache\<close>, and again, with \<^verbatim>\<open>ensure_html\<close>, for one of type \<^verbatim>\<open>html-cache\<close>.
  \<^verbatim>\<open>Path(entry["cit"])\<close> raises \<^verbatim>\<open>TypeError\<close> on a bound method. The handler of the
  request logs the exception and raises it again.
\<close>

definition ensure_cache ::
  "externals \<Rightarrow> (string \<Rightarrow> string \<Rightarrow> arxiv_identifier \<Rightarrow> filesystem \<Rightarrow> (exn + unit) \<times> filesystem)
     \<Rightarrow> string \<Rightarrow> file_state \<Rightarrow> int \<Rightarrow> entry \<Rightarrow> world \<Rightarrow> exn option \<times> world" where
  "ensure_cache X request kind file_state my_tag entry w =
     (case cit entry of
        PyBoundMethod m \<Rightarrow> (Some TypeError, w)
      | PyStr path \<Rightarrow>
          (case (if \<not> path_exists (fsys w) path
                 then (case pick_webnode X my_tag w of
                         Inl e \<Rightarrow> (Some e, w)
                       | Inr ((host, n_para), w1) \<Rightarrow>
                           (let protocol = (if prefix ''localhost:'' host then ''http'' else ''https'');
                                (r, fs') = request host protocol (vxid file_state) (fsys w1);
                                w2 = emit (EvEnsure kind host protocol) (w1\<lparr>fsys := fs'\<rparr>)
                            in case r of Inl e \<Rightarrow> (Some e, w2) | Inr u \<Rightarrow> (None, w2)))
                 else (None, w)) of
             (Some e, w') \<Rightarrow> (Some e, w')
           | (None, w') \<Rightarrow>
               if \<not> path_exists (fsys w') path then (Some MissingGeneratedFile, w')
               else (None, w')))"

fun ensure_entries ::
  "externals \<Rightarrow> file_state \<Rightarrow> int \<Rightarrow> entry list \<Rightarrow> world \<Rightarrow> exn option \<times> world" where
  "ensure_entries X file_state my_tag [] w = (None, w)"
| "ensure_entries X file_state my_tag (entry # rest) w =
     (case (if etype entry = ''pdf-cache''
            then ensure_cache X (ensure_pdf X) ''pdf'' file_state my_tag entry w
            else (None, w)) of
        (Some e, w1) \<Rightarrow> (Some e, w1)
      | (None, w1) \<Rightarrow>
          (case (if etype entry = ''html-cache''
                 then ensure_cache X (ensure_html X) ''html'' file_state my_tag entry w1
                 else (None, w1)) of
             (Some e, w2) \<Rightarrow> (Some e, w2)
           | (None, w2) \<Rightarrow> ensure_entries X file_state my_tag rest w2))"

text \<open>\<^verbatim>\<open>dict.get(key, default)\<close> on the items of a dict.\<close>

definition dict_get :: "(string \<times> json) list \<Rightarrow> string \<Rightarrow> json \<Rightarrow> json" where
  "dict_get kvs k dflt = (case map_of kvs k of Some v \<Rightarrow> v | None \<Rightarrow> dflt)"

definition submission_message_to_file_state ::
  "externals \<Rightarrow> json \<Rightarrow> bool \<Rightarrow> world \<Rightarrow> (exn + file_state) \<times> world" where
  "submission_message_to_file_state X data ask_webnode w =
     (let my_tag = WEBNODE_REQUEST_COUNT w in
      case data of
        JObject kvs \<Rightarrow>
          (case SubmissionFilesState X (dict_get kvs ''paper_id'' JNull)
                  (dict_get kvs ''version'' JNull) (dict_get kvs ''type'' JNull)
                  (dict_get kvs ''src_ext'' JNull) (dict_get kvs ''source_format'' (JStr [])) of
             Inl e \<Rightarrow> (Inl e, w)
           | Inr file_state \<Rightarrow>
               if ask_webnode
               then (case get_expected_files X (fsys w) file_state of
                       Inl e \<Rightarrow> (Inl e, w)
                     | Inr (files, file_state') \<Rightarrow>
                         (case ensure_entries X file_state' my_tag files w of
                            (Some e, w') \<Rightarrow> (Inl e, w')
                          | (None, w') \<Rightarrow> (Inr file_state', w')))
               else (Inr file_state, w))
      | _ \<Rightarrow> (Inl AttributeError, w))"


section \<open>The object store\<close>

text \<open>
  \<^verbatim>\<open>list_bucket_objects\<close>: the keys of the objects under a prefix. The slice and
  \<^verbatim>\<open>unquote\<close> undo the quoting of \<^verbatim>\<open>blob.path\<close>, so the result is the keys themselves.
\<close>

definition list_bucket_objects :: "world \<Rightarrow> string \<Rightarrow> string list" where
  "list_bucket_objects w gcp_path = filter (prefix gcp_path) (map fst (bucket w))"

text \<open>
  \<^verbatim>\<open>Bucket.rename_blob\<close> of the store's client: the object is copied to the new name
  and removed under the old one; an object that does not exist makes it raise.
\<close>

definition rename_blob ::
  "(string \<times> nat list) list \<Rightarrow> string \<Rightarrow> string \<Rightarrow> exn + (string \<times> nat list) list" where
  "rename_blob b src dst =
     (case map_of b src of
        None \<Rightarrow> Inl (External ''NotFound'')
      | Some v \<Rightarrow> Inr (AList.update dst v (AList.delete src b)))"

text \<open>\<^verbatim>\<open>str.split(sep)\<close> for a separator of one character, and \<^verbatim>\<open>sep.join(parts)\<close>.\<close>

fun py_split :: "char \<Rightarrow> string \<Rightarrow> string list" where
  "py_split sep [] = [[]]"
| "py_split sep (c # cs) =
     (if c = sep then [] # py_split sep cs
      else (case py_split sep cs of
              [] \<Rightarrow> [[c]]
            | p # ps \<Rightarrow> (c # p) # ps))"

fun py_join :: "string \<Rightarrow> string list \<Rightarrow> string" where
  "py_join sep [] = []"
| "py_join sep [x] = x"
| "py_join sep (x # y # ys) = x @ sep @ py_join sep (y # ys)"

fun trash_bucket_objects :: "string list \<Rightarrow> world \<Rightarrow> exn option \<times> world" where
  "trash_bucket_objects [] w = (None, w)"
| "trash_bucket_objects (obj # rest) w =
     (let trashed_blob = py_join ''/'' (''trash'' # py_split CHR ''/'' obj) in
      case rename_blob (bucket w) obj trashed_blob of
        Inl e \<Rightarrow> (Some e, w)
      | Inr b \<Rightarrow> trash_bucket_objects rest (emit (EvRename obj trashed_blob) (w\<lparr>bucket := b\<rparr>)))"

text \<open>
  Modelled from the spec: \<^verbatim>\<open>upload\<close> of \<^verbatim>\<open>sync_published_to_gcp\<close>, which is not among
  the sources. The spec: "Upload is a skip-if-unchanged operation: if an object already
  exists at the destination with matching size (and, where available, checksum), no bytes
  are transferred". Otherwise the bytes of the local file become the object. A local file
  that cannot be read makes the upload raise.
\<close>

definition unchanged :: "externals \<Rightarrow> nat list \<Rightarrow> nat list \<Rightarrow> bool" where
  "unchanged X existing content =
     (length existing = length content \<and>
      (case checksum X of None \<Rightarrow> True | Some h \<Rightarrow> h existing = h content))"

definition upload :: "externals \<Rightarrow> string \<Rightarrow> string \<Rightarrow> world \<Rightarrow> exn option \<times> world" where
  "upload X localpath key w =
     (case file_bytes (fsys w) localpath of
        None \<Rightarrow> (Some (External ''FileNotFoundError''), w)
      | Some content \<Rightarrow>
          (case map_of (bucket w) key of
             None \<Rightarrow>
               (None, emit (EvUpload key (length content))
                        (w\<lparr>bucket := AList.update key content (bucket w)\<rparr>))
           | Some existing \<Rightarrow>
               if unchanged X existing content then (None, emit (EvSkip key) w)
               else (None, emit (EvUpload key (length content))
                             (w\<lparr>bucket := AList.update key content (bucket w)\<rparr>))))"

section \<open>Reconciliation\<close>

text \<open>
  The loop of \<^verbatim>\<open>sync_to_gcp\<close> over the desired state: each entry is uploaded and its
  key is taken off the listing. \<^verbatim>\<open>Path(local)\<close> raises \<^verbatim>\<open>TypeError\<close> on a bound method.
\<close>

fun upload_entries ::
  "externals \<Rightarrow> entry list \<Rightarrow> string list \<Rightarrow> world \<Rightarrow> (exn + string list) \<times> world" where
  "upload_entries X [] bucket_objects w = (Inr bucket_objects, w)"
| "upload_entries X (entry # rest) bucket_objects w =
     (case cit entry of
        PyBoundMethod m \<Rightarrow> (Inl TypeError, w)
      | PyStr local \<Rightarrow>
          (case upload X local (gcp entry) w of
             (Some e, w1) \<Rightarrow> (Inl e, w1)
           | (None, w1) \<Rightarrow>
               upload_entries X rest
                 (if gcp entry \<in> set bucket_objects then remove1 (gcp entry) bucket_objects
                  else bucket_objects) w1))"

text \<open>
  The part of \<^verbatim>\<open>sync_to_gcp\<close> after the desired state is known: list, upload, trash.
\<close>

definition reconcile ::
  "externals \<Rightarrow> entry list \<Rightarrow> string \<Rightarrow> world \<Rightarrow> exn option \<times> world" where
  "reconcile X desired_state gcp_path w =
     (let bucket_objects = list_bucket_objects w gcp_path in
      case upload_entries X desired_state bucket_objects (emit (EvList gcp_path) w) of
        (Inl e, w1) \<Rightarrow> (Some e, w1)
      | (Inr remaining, w1) \<Rightarrow>
          if remaining \<noteq> [] then trash_bucket_objects remaining w1 else (None, w1))"

definition sync_to_gcp :: "externals \<Rightarrow> file_state \<Rightarrow> world \<Rightarrow> exn option \<times> world" where
  "sync_to_gcp X state w =
     (case get_expected_files X (fsys w) state of
        Inl e \<Rightarrow> (Some e, w)
      | Inr (desired_state, state') \<Rightarrow>
          (case path_to_bucket_key X (PyStr (source_path X state' (JStr []))) of
             Inl e \<Rightarrow> (Some e, w)
           | Inr gcp_path \<Rightarrow> reconcile X desired_state gcp_path w))"

section \<open>The message handler\<close>

record message =
  message_id :: string
  msg_data :: "nat list"

text \<open>
  \<^verbatim>\<open>decode_message\<close>: \<open>JNull\<close> is the \<^verbatim>\<open>None\<close> it returns after either handler, and
  also what a payload \<^verbatim>\<open>null\<close> parses to.
\<close>

definition decode_message :: "externals \<Rightarrow> message \<Rightarrow> json" where
  "decode_message X m =
     (case utf8_decode X (msg_data m) of
        None \<Rightarrow> JNull
      | Some json_str \<Rightarrow>
          (case json_loads X json_str of
             Inl e \<Rightarrow> JNull
           | Inr data \<Rightarrow> data))"

text \<open>
  \<^verbatim>\<open>submission_callback\<close>. The three \<^verbatim>\<open>data.get\<close> calls that fill \<^verbatim>\<open>log_extra\<close> stand
  before the first \<^verbatim>\<open>try\<close>: on a decoded value that is no dict their
  \<^verbatim>\<open>AttributeError\<close> leaves the handler. The first component of the result is the
  exception that leaves the handler, if any.
\<close>

definition submission_callback :: "externals \<Rightarrow> message \<Rightarrow> world \<Rightarrow> exn option \<times> world" where
  "submission_callback X m w =
     (let data = decode_message X m in
      if data = JNull then (None, emit EvNack w)
      else
        (case data of
           JObject kvs \<Rightarrow>
             (case submission_message_to_file_state X data True w of
                (Inl e, w1) \<Rightarrow> (None, emit EvNack w1)
              | (Inr state, w1) \<Rightarrow>
                  (case get_expected_files X (fsys w1) state of
                     Inl e \<Rightarrow> (None, emit EvNack w1)
                   | Inr (desired_state, state') \<Rightarrow>
                       if desired_state = [] then (None, emit EvNack w1)
                       else
                         (case sync_to_gcp X state' w1 of
                            (Some e, w2) \<Rightarrow> (None, emit EvNack w2)
                          | (None, w2) \<Rightarrow> (None, emit EvAck w2))))
         | _ \<Rightarrow> (Some AttributeError, w)))"


section \<open>A concrete host, store and table of parameters\<close>

text \<open>
  One instance of the parameters, for evaluating the functions on concrete messages: the
  paper \<^verbatim>\<open>1208.9998\<close>, prefixes under \<^verbatim>\<open>/data/\<close> and \<^verbatim>\<open>/cache/\<close>, a key rewrite that
  drops these two roots and raises on anything else, two worker hosts, a decoder that
  accepts no payload and a parser given by a table of texts.
\<close>

definition paper :: arxiv_identifier where
  "paper = \<lparr>ids = ''1208.9998'', idv = ''1208.9998'', filename = ''1208.9998'', yymm = ''1208'',
            archive = ''arxiv'', has_version = False, is_old_id = False\<rparr>"

definition paper_v2 :: arxiv_identifier where
  "paper_v2 = \<lparr>ids = ''1208.9998'', idv = ''1208.9998v2'', filename = ''1208.9998'',
               yymm = ''1208'', archive = ''arxiv'', has_version = True, is_old_id = False\<rparr>"

definition test_Identifier :: "json \<Rightarrow> exn + arxiv_identifier" where
  "test_Identifier j =
     (if j = JStr ''1208.9998'' then Inr paper
      else if j = JStr ''1208.9998v2'' then Inr paper_v2
      else Inl (External ''IdentifierException''))"

definition test_path_to_bucket_key :: "pyobj \<Rightarrow> exn + string" where
  "test_path_to_bucket_key c =
     (case c of
        PyStr p \<Rightarrow>
          if prefix ''/cache/'' p then Inr (drop 7 p)
          else if prefix ''/data/'' p then Inr (drop 6 p)
          else Inl (External ''ValueError'')
      | PyBoundMethod m \<Rightarrow> Inl (External ''ValueError''))"

definition loads_table :: "(string \<times> json) list \<Rightarrow> string \<Rightarrow> exn + json" where
  "loads_table t s =
     (case map_of t s of None \<Rightarrow> Inl (External ''JSONDecodeError'') | Some v \<Rightarrow> Inr v)"

definition test_externals ::
  "(string \<Rightarrow> string \<Rightarrow> arxiv_identifier \<Rightarrow> filesystem \<Rightarrow> (exn + unit) \<times> filesystem)
     \<Rightarrow> externals" where
  "test_externals request =
     \<lparr>Identifier = test_Identifier, path_to_bucket_key = test_path_to_bucket_key,
      FTP_PREFIX = ''/data/ftp/'', ORIG_PREFIX = ''/data/orig/'',
      PS_CACHE_PREFIX = ''/cache/ps_cache/'',
      CONCURRENCY_PER_WEBNODE = [(''web1'', 1), (''web2'', 2)],
      ensure_pdf = request, ensure_html = request,
      py_repr = (\<lambda>j. ''?''), utf8_decode = map_of [], json_loads = loads_table [],
      checksum = None\<rparr>"

text \<open>A request that fails in transport.\<close>

definition request_fails ::
  "string \<Rightarrow> string \<Rightarrow> arxiv_identifier \<Rightarrow> filesystem \<Rightarrow> (exn + unit) \<times> filesystem" where
  "request_fails host protocol vx fs = (Inl (External ''ConnectionError''), fs)"

definition mk_fs ::
  "string list \<Rightarrow> (string \<times> string list) list \<Rightarrow> (string \<times> string list) list
     \<Rightarrow> (string \<times> string) list \<Rightarrow> (string \<times> nat list) list \<Rightarrow> filesystem" where
  "mk_fs paths texts tars gzs contents =
     \<lparr>path_exists = (\<lambda>p. p \<in> set paths), read_lines = map_of texts, tar_names = map_of tars,
      gz_text = (\<lambda>p. case map_of gzs p of None \<Rightarrow> Inl (External ''OSError'') | Some t \<Rightarrow> Inr t),
      file_bytes = map_of contents\<rparr>"

definition mk_world :: "filesystem \<Rightarrow> (string \<times> nat list) list \<Rightarrow> world" where
  "mk_world fs b = \<lparr>fsys = fs, bucket = b, WEBNODE_REQUEST_COUNT = 0, trace = []\<rparr>"

text \<open>
  The parameters with a decoder and a parser that know three payloads: \<^verbatim>\<open>[]\<close>,
  \<^verbatim>\<open>{\<close> (valid UTF-8, no JSON) and \<^verbatim>\<open>{}\<close>. Every other payload fails to decode.
\<close>

definition test_decoder :: "externals \<Rightarrow> externals" where
  "test_decoder X =
     X\<lparr>utf8_decode := map_of [([91, 93], ''[]''), ([123], ''{''), ([123, 125], ''{}'')],
       json_loads := loads_table [(''[]'', JArray []), (''{}'', JObject [])]\<rparr>"

text \<open>
  The state the constructor builds for version 2 of the paper, and a host with its abs
  file and source. \<open>fs_flags\<close>: a tarball, and an abs file whose last \<^verbatim>\<open>Date\<close> line carries
  the source-type code \<^verbatim>\<open>AS\<close>. \<open>fs_html\<close>: an HTML source.
\<close>

definition test_state :: "json \<Rightarrow> json \<Rightarrow> json \<Rightarrow> file_state" where
  "test_state ptype ext fmt =
     \<lparr>xid = paper, vxid = paper_v2, src_ext = ext, source_format = fmt, source_flags = [],
      single_source = False, state_archive = ''arxiv'', publish_type = ptype, version = JInt 2,
      ext_candidates =
        (if py_truthy ext
         then ext # (if ext \<in> set (map JStr (tl submission_exts))
                     then remove1 ext (map JStr submission_exts) else map JStr submission_exts)
         else map JStr submission_exts),
      prev_version = 1, top_levels = []\<rparr>"

definition fs_flags :: filesystem where
  "fs_flags =
     mk_fs [''/data/ftp/arxiv/papers/1208/1208.9998.abs'',
            ''/data/ftp/arxiv/papers/1208/1208.9998.tar.gz'']
       [(''/data/ftp/arxiv/papers/1208/1208.9998.abs'',
         [''arXiv:1208.9998'', ''From: A <a@example.org>'',
          ''Date: Thu, 30 Aug 2012 10:00:00 GMT   (10kb)'',
          ''Date (revised v2): Mon, 3 Sep 2012 10:00:00 GMT   (12kb,AS)'', [], ''Title: T''])]
       [(''/data/ftp/arxiv/papers/1208/1208.9998.tar.gz'', [''main.tex''])] [] []"

definition fs_html :: filesystem where
  "fs_html =
     mk_fs [''/data/ftp/arxiv/papers/1208/1208.9998.abs'',
            ''/data/ftp/arxiv/papers/1208/1208.9998.html.gz'']
       [] [] [] []"

text \<open>
  The parameters with a key rewrite that also accepts a bound method (it returns the
  method's name), to follow an entry past \<^verbatim>\<open>path_to_bucket_key\<close>.
\<close>

definition lenient_key :: "externals \<Rightarrow> externals" where
  "lenient_key X =
     X\<lparr>path_to_bucket_key :=
         (\<lambda>c. case c of PyStr p \<Rightarrow> path_to_bucket_key X c | PyBoundMethod m \<Rightarrow> Inr m)\<rparr>"




definition fs_replaced :: filesystem where
  "fs_replaced =
     mk_fs [''/data/ftp/arxiv/papers/1208/1208.9998.abs'',
            ''/data/ftp/arxiv/papers/1208/1208.9998.pdf'',
            ''/data/orig/arxiv/papers/1208/1208.9998v1.abs'',
            ''/data/orig/arxiv/papers/1208/1208.9998v1.gz'']
       [] [] [] []"

text \<open>
  A TeX submission whose PDF has not been rendered, the message that announces it, and
  a request that returns without rendering anything.
\<close>

definition fs_tex :: filesystem where
  "fs_tex =
     mk_fs [''/data/ftp/arxiv/papers/1208/1208.9998.abs'',
            ''/data/ftp/arxiv/papers/1208/1208.9998.tar.gz'']
       [] [(''/data/ftp/arxiv/papers/1208/1208.9998.tar.gz'', [''main.tex''])] []
       [(''/data/ftp/arxiv/papers/1208/1208.9998.abs'', [65, 66]),
        (''/data/ftp/arxiv/papers/1208/1208.9998.tar.gz'', [31, 139, 8])]"

definition msg_tex :: "(string \<times> json) list" where
  "msg_tex = [(''type'', JStr ''new''), (''paper_id'', JStr ''1208.9998''), (''version'', JInt 2),
              (''src_ext'', JStr ''.tar.gz''), (''source_format'', JStr ''tex'')]"

definition request_idle ::
  "string \<Rightarrow> string \<Rightarrow> arxiv_identifier \<Rightarrow> filesystem \<Rightarrow> (exn + unit) \<times> filesystem" where
  "request_idle host protocol vx fs = (Inr (), fs)"

text \<open>
  What the loop of \<^verbatim>\<open>sync_to_gcp\<close> leaves of the listing: the key of each entry is
  taken off once, in the order of the desired state.
\<close>

fun remaining_objects :: "entry list \<Rightarrow> string list \<Rightarrow> string list" where
  "remaining_objects [] objs = objs"
| "remaining_objects (entry # rest) objs =
     remaining_objects rest
       (if gcp entry \<in> set objs then remove1 (gcp entry) objs else objs)"

text \<open>
  A PDF submission with the bytes of its two files, a bucket that holds exactly these
  objects under the paper's prefix (and one object of another paper), a bucket with an
  outdated abstract and a source that is no longer expected, and the desired state of
  the PDF submission.
\<close>

definition fs_pdf :: filesystem where
  "fs_pdf =
     mk_fs [''/data/ftp/arxiv/papers/1208/1208.9998.abs'',
            ''/data/ftp/arxiv/papers/1208/1208.9998.pdf'']
       [] [] []
       [(''/data/ftp/arxiv/papers/1208/1208.9998.abs'', [65, 66]),
        (''/data/ftp/arxiv/papers/1208/1208.9998.pdf'', [37, 80, 68, 70])]"

definition bucket_synced :: "(string \<times> nat list) list" where
  "bucket_synced =
     [(''ftp/arxiv/papers/1208/1208.0001.abs'', [1]),
      (''ftp/arxiv/papers/1208/1208.9998.abs'', [65, 66]),
      (''ftp/arxiv/papers/1208/1208.9998.pdf'', [37, 80, 68, 70])]"

definition bucket_stale :: "(string \<times> nat list) list" where
  "bucket_stale =
     [(''ftp/arxiv/papers/1208/1208.0001.abs'', [1]),
      (''ftp/arxiv/papers/1208/1208.9998.abs'', [65]),
      (''ftp/arxiv/papers/1208/1208.9998.tar.gz'', [31, 139, 8])]"

definition desired_pdf :: "entry list" where
  "desired_pdf =
     [\<lparr>etype = ''abstract'', cit = PyStr ''/data/ftp/arxiv/papers/1208/1208.9998.abs'',
       status = ''current'', gcp = ''ftp/arxiv/papers/1208/1208.9998.abs''\<rparr>,
      \<lparr>etype = ''submission'', cit = PyStr ''/data/ftp/arxiv/papers/1208/1208.9998.pdf'',
       status = ''current'', gcp = ''ftp/arxiv/papers/1208/1208.9998.pdf''\<rparr>]"

lemmas path_defs = latest_dir_def gz_source_def tgz_source_def ps_cache_pdf_file_def html_file_def
  versioned_parent_def source_path_def prev_source_path_def py_str_def py_str_int_def digit_char_def

lemmas fixture_defs = test_externals_def test_Identifier_def test_path_to_bucket_key_def paper_def
  paper_v2_def request_fails_def loads_table_def mk_fs_def mk_world_def

lemmas state_defs = SubmissionFilesState_def submission_exts_def dict_get_def
  maybe_update_metadata_def is_tex_submission_def is_html_submission_def get_tgz_top_levels_def
  is_removed_def is_ignored_def needle_def current_def obsolete_def current_files_def
  obsolete_files_def get_expected_files_def

lemmas ensure_defs = emit_def pick_webnode_def ensure_cache_def submission_message_to_file_state_def

section \<open>The version argument\<close>

lemmas int_eval =
  py_int_str_def py_strip_def is_space_def parse_digits_def is_digit_def digit_val_def






section \<open>Decoding and answering a message\<close>

text \<open>
  C10. \<^verbatim>\<open>decode_message\<close> returns in every case: the parsed value when the payload
  decodes as UTF-8 and parses as JSON, and \<^verbatim>\<open>None\<close> when the decoding raises
  \<^verbatim>\<open>UnicodeDecodeError\<close> or the parser raises. After a \<^verbatim>\<open>None\<close> the handler returns
  with the world as it was but for one nack: no file state is built, no request is made
  and the store is not touched.
\<close>

theorem decode_message_total:
  "(\<forall>s v. utf8_decode X (msg_data m) = Some s \<and> json_loads X s = Inr v
       \<longrightarrow> decode_message X m = v)
   \<and> ((utf8_decode X (msg_data m) = None
        \<or> (\<exists>s e. utf8_decode X (msg_data m) = Some s \<and> json_loads X s = Inl e))
       \<longrightarrow> decode_message X m = JNull \<and> submission_callback X m w = (None, emit EvNack w))"
  by (auto simp: decode_message_def submission_callback_def)

theorem decode_message_total_witness:
  "decode_message (test_decoder (test_externals request_fails))
       \<lparr>message_id = ''1'', msg_data = [123, 125]\<rparr>
     = JObject []
   \<and> decode_message (test_decoder (test_externals request_fails))
       \<lparr>message_id = ''2'', msg_data = [255]\<rparr>
     = JNull
   \<and> submission_callback (test_decoder (test_externals request_fails))
        \<lparr>message_id = ''2'', msg_data = [255]\<rparr> (mk_world (mk_fs [] [] [] [] []) [])
     = (None, emit EvNack (mk_world (mk_fs [] [] [] [] []) []))
   \<and> submission_callback (test_decoder (test_externals request_fails))
        \<lparr>message_id = ''3'', msg_data = [123]\<rparr> (mk_world (mk_fs [] [] [] [] []) [])
     = (None, emit EvNack (mk_world (mk_fs [] [] [] [] []) []))"
proof -
  let ?X = "test_decoder (test_externals request_fails)"
  let ?w = "mk_world (mk_fs [] [] [] [] []) []"
  have a: "utf8_decode ?X (msg_data \<lparr>message_id = ''1'', msg_data = [123, 125]\<rparr>) = Some ''{}''
           \<and> json_loads ?X ''{}'' = Inr (JObject [])"
    by (simp add: test_decoder_def fixture_defs)
  have b: "utf8_decode ?X (msg_data \<lparr>message_id = ''2'', msg_data = [255]\<rparr>) = None"
    by (simp add: test_decoder_def fixture_defs)
  have c: "\<exists>s e. utf8_decode ?X (msg_data \<lparr>message_id = ''3'', msg_data = [123]\<rparr>) = Some s
           \<and> json_loads ?X s = Inl e"
    by (simp add: test_decoder_def fixture_defs)
  from decode_message_total[of ?X "\<lparr>message_id = ''1'', msg_data = [123, 125]\<rparr>" ?w] a
  have 1: "decode_message ?X \<lparr>message_id = ''1'', msg_data = [123, 125]\<rparr> = JObject []"
    by blast
  from decode_message_total[of ?X "\<lparr>message_id = ''2'', msg_data = [255]\<rparr>" ?w] b
  have 2: "decode_message ?X \<lparr>message_id = ''2'', msg_data = [255]\<rparr> = JNull
           \<and> submission_callback ?X \<lparr>message_id = ''2'', msg_data = [255]\<rparr> ?w
               = (None, emit EvNack ?w)"
    by blast
  from decode_message_total[of ?X "\<lparr>message_id = ''3'', msg_data = [123]\<rparr>" ?w] c
  have 3: "submission_callback ?X \<lparr>message_id = ''3'', msg_data = [123]\<rparr> ?w
             = (None, emit EvNack ?w)"
    by blast
  from 1 2 3 show ?thesis by blast
qed

text \<open>
  A payload that decodes to a dict is always answered by the handler, with an ack or
  with a nack, and no exception leaves it.
\<close>

lemma callback_dict_answers:
  assumes "decode_message X m = JObject kvs"
  shows "\<exists>w'. submission_callback X m w = (None, emit EvAck w')
              \<or> submission_callback X m w = (None, emit EvNack w')"
  using assms
  by (auto simp: submission_callback_def split: sum.splits prod.splits option.splits)

text \<open>
  C9. The payload \<^verbatim>\<open>[]\<close> is valid JSON and no dict. \<^verbatim>\<open>decode_message\<close> returns the
  list, and \<^verbatim>\<open>data.get('type')\<close>, which stands before the first \<^verbatim>\<open>try\<close> of the
  handler, raises \<^verbatim>\<open>AttributeError\<close>: the exception leaves the handler, which has
  called neither \<^verbatim>\<open>ack\<close> nor \<^verbatim>\<open>nack\<close> (the trace stays empty).
\<close>

theorem callback_non_dict_payload:
  "submission_callback (test_decoder (test_externals request_fails))
      \<lparr>message_id = ''4'', msg_data = [91, 93]\<rparr> (mk_world (mk_fs [] [] [] [] []) [])
    = (Some AttributeError, mk_world (mk_fs [] [] [] [] []) [])
   \<and> trace (mk_world (mk_fs [] [] [] [] []) []) = []"
  by (simp add: submission_callback_def decode_message_def test_decoder_def fixture_defs)

section \<open>The source-type code\<close>

lemmas re_defs = re_date_source_type_def match_date_header_def strip_prefix_def
  match_size_group_def is_space_def is_digit_def py_strip_def

lemma test_state_constructed:
  "SubmissionFilesState (test_externals r) (JStr ''1208.9998'') (JInt 2) ptype ext fmt
     = Inr (test_state ptype ext fmt)"
  by (simp add: SubmissionFilesState_def test_state_def fixture_defs path_defs Let_def map_tl)

lemma scan_source_type_SAB:
  "\<exists>c\<in>set code. c \<in> set ''SAB'' \<Longrightarrow> scan_source_type code st = Inl AttributeError"
proof (induction code arbitrary: st)
  case Nil
  then show ?case by simp
next
  case (Cons c cs)
  show ?case
  proof (cases "c \<in> set ''SAB''")
    case True
    then have "flag_to_source_format c = None"
      by (auto simp: flag_to_source_format_def)
    with True show ?thesis by simp
  next
    case False
    with Cons.prems have "\<exists>c\<in>set cs. c \<in> set ''SAB''" by auto
    with Cons.IH False show ?thesis
      by (cases "flag_to_source_format c") simp_all
  qed
qed

lemma source_path_src_ext [simp]:
  "source_path X (st\<lparr>src_ext := e\<rparr>) d = source_path X st d"
  by (simp add: source_path_def latest_dir_def)

text \<open>
  C3. When the message gives no source format and the last \<^verbatim>\<open>Date\<close> line of the abs
  file carries a source-type code with one of the characters \<^verbatim>\<open>S\<close>, \<^verbatim>\<open>A\<close>, \<^verbatim>\<open>B\<close>,
  \<^verbatim>\<open>maybe_update_metadata\<close> does not complete: \<^verbatim>\<open>self.source_flags.append\<close> raises
  \<^verbatim>\<open>AttributeError\<close>, whatever the other characters of the code are.
\<close>

theorem source_flags_append_raises:
  assumes "\<not> py_truthy (source_format st)"
    and "read_lines fs (source_path X st (JStr ''.abs'')) = Some ls"
    and "date_lines ls \<noteq> []"
    and "re_date_source_type (last (date_lines ls)) = Some (Some code)"
    and "\<exists>c\<in>set code. c \<in> set ''SAB''"
  shows "maybe_update_metadata X fs st = Inl AttributeError"
  using assms scan_source_type_SAB[OF assms(5)]
  by (simp add: maybe_update_metadata_def Let_def split: option.splits)

theorem source_flags_append_raises_witness:
  "maybe_update_metadata (test_externals request_fails) fs_flags
      (test_state (JStr ''rep'') (JStr ''.tar.gz'') (JStr [])) = Inl AttributeError
   \<and> get_expected_files (test_externals request_fails) fs_flags
      (test_state (JStr ''rep'') (JStr ''.tar.gz'') (JStr [])) = Inl AttributeError"
proof -
  let ?X = "test_externals request_fails"
  let ?st = "test_state (JStr ''rep'') (JStr ''.tar.gz'') (JStr [])"
  let ?ls = "[''arXiv:1208.9998'', ''From: A <a@example.org>'',
          ''Date: Thu, 30 Aug 2012 10:00:00 GMT   (10kb)'',
          ''Date (revised v2): Mon, 3 Sep 2012 10:00:00 GMT   (12kb,AS)'', [], ''Title: T'']"
  have dl: "date_lines ?ls = [''Date: Thu, 30 Aug 2012 10:00:00 GMT   (10kb)'',
          ''Date (revised v2): Mon, 3 Sep 2012 10:00:00 GMT   (12kb,AS)'']"
    by (simp add: re_defs)
  have 1: "\<not> py_truthy (source_format ?st)" by (simp add: test_state_def)
  have 2: "read_lines fs_flags (source_path ?X ?st (JStr ''.abs'')) = Some ?ls"
    by (simp add: fs_flags_def test_state_def fixture_defs path_defs)
  have 3: "date_lines ?ls \<noteq> []" unfolding dl by simp
  have 4: "re_date_source_type (last (date_lines ?ls)) = Some (Some ''AS'')"
    unfolding dl by (simp add: re_defs)
  have 5: "\<exists>c\<in>set ''AS''. c \<in> set ''SAB''" by simp
  have m: "maybe_update_metadata ?X fs_flags ?st = Inl AttributeError"
    by (rule source_flags_append_raises[OF 1 2 3 4 5])
  have g: "get_expected_files ?X fs_flags ?st = Inl AttributeError"
    by (simp add: state_defs test_state_def fs_flags_def fixture_defs path_defs re_defs
          flag_to_source_format_def)
  from m g show ?thesis by simp
qed


section \<open>The entry of the rendered HTML\<close>

lemma add_gcp_keeps:
  "add_gcp X fes = Inr es \<Longrightarrow> map (\<lambda>e. (etype e, cit e, status e)) es = fes"
proof (induction fes arbitrary: es)
  case Nil
  then show ?case by simp
next
  case (Cons fe fes)
  obtain t c s where fe: "fe = (t, c, s)" by (cases fe)
  from Cons.prems fe obtain k es' where
    "path_to_bucket_key X c = Inr k" "add_gcp X fes = Inr es'"
    "es = \<lparr>etype = t, cit = c, status = s, gcp = k\<rparr> # es'"
    by (auto split: sum.splits)
  with Cons.IH[of es'] fe show ?case by simp
qed

lemma obsolete_files_types:
  "fe \<in> set (obsolete_files X fs st) \<Longrightarrow> fst fe \<in> {''abstract'', ''submission''}"
  by (auto simp: obsolete_files_def obsolete_def split: if_splits option.splits)

text \<open>
  C2. For a live submission whose resolved format is \<^verbatim>\<open>html\<close> the current entries are
  the abstract, the submission and an entry of type \<^verbatim>\<open>html-cache\<close> whose \<^verbatim>\<open>cit\<close> is the
  bound method \<^verbatim>\<open>self.html_file\<close>. Whenever \<^verbatim>\<open>get_expected_files\<close> returns, the set
  holds that entry, no entry of type \<^verbatim>\<open>html-cache\<close> has the path of the rendered HTML
  directory as its source path, and there is no entry of type \<^verbatim>\<open>pdf-cache\<close>.
\<close>

theorem html_cache_is_bound_method:
  assumes "is_removed X fs st = (False, st1)"
    and "is_ignored X fs st1 = Inr False"
    and "maybe_update_metadata X fs st1 = Inr st2"
    and "py_truthy (src_ext st2)"
    and "source_format st2 = JStr ''html''"
  shows "current_files X fs st =
           Inr ([current ''abstract'' (PyStr (source_path X st (JStr ''.abs''))),
                 current ''submission'' (PyStr (source_path X st2 (src_ext st2))),
                 current ''html-cache'' (PyBoundMethod ''html_file'')], st2)
         \<and> (\<forall>files st'. get_expected_files X fs st = Inr (files, st') \<longrightarrow>
               (\<exists>entry\<in>set files. etype entry = ''html-cache'' \<and> status entry = ''current''
                    \<and> cit entry = PyBoundMethod ''html_file'')
               \<and> (\<forall>entry\<in>set files. etype entry = ''html-cache''
                    \<longrightarrow> cit entry \<noteq> PyStr (html_file X st'))
               \<and> (\<forall>entry\<in>set files. etype entry \<noteq> ''pdf-cache''))"
proof -
  have cur: "current_files X fs st =
           Inr ([current ''abstract'' (PyStr (source_path X st (JStr ''.abs''))),
                 current ''submission'' (PyStr (source_path X st2 (src_ext st2))),
                 current ''html-cache'' (PyBoundMethod ''html_file'')], st2)"
    using assms
    by (simp add: current_files_def is_tex_submission_def is_html_submission_def)
  have rest: "(\<exists>entry\<in>set files. etype entry = ''html-cache'' \<and> status entry = ''current''
                    \<and> cit entry = PyBoundMethod ''html_file'')
               \<and> (\<forall>entry\<in>set files. etype entry = ''html-cache''
                    \<longrightarrow> cit entry \<noteq> PyStr (html_file X st'))
               \<and> (\<forall>entry\<in>set files. etype entry \<noteq> ''pdf-cache'')"
    if g: "get_expected_files X fs st = Inr (files, st')" for files st'
  proof -
    let ?cur = "[current ''abstract'' (PyStr (source_path X st (JStr ''.abs''))),
                 current ''submission'' (PyStr (source_path X st2 (src_ext st2))),
                 current ''html-cache'' (PyBoundMethod ''html_file'')]"
    from g cur have a: "add_gcp X (?cur @ obsolete_files X fs st2) = Inr files"
      by (auto simp: get_expected_files_def split: sum.splits)
    from add_gcp_keeps[OF a]
    have m: "map (\<lambda>e. (etype e, cit e, status e)) files = ?cur @ obsolete_files X fs st2" .
    have mem: "(etype entry, cit entry, status entry) \<in> set (?cur @ obsolete_files X fs st2)"
      if "entry \<in> set files" for entry
      using that m by (metis (mono_tags, lifting) image_eqI list.set_map)
    have "current ''html-cache'' (PyBoundMethod ''html_file'')
            \<in> set (map (\<lambda>e. (etype e, cit e, status e)) files)"
      unfolding m by simp
    then have ex: "\<exists>entry\<in>set files. etype entry = ''html-cache'' \<and> status entry = ''current''
                    \<and> cit entry = PyBoundMethod ''html_file''"
      by (auto simp: current_def)
    have no_path: "cit entry \<noteq> PyStr (html_file X st')"
      if "entry \<in> set files" "etype entry = ''html-cache''" for entry
      using mem[OF that(1)] that(2) obsolete_files_types[of "(etype entry, cit entry, status entry)" X fs st2]
      by (auto simp: current_def)
    have no_pdf: "etype entry \<noteq> ''pdf-cache''" if "entry \<in> set files" for entry
      using mem[OF that] obsolete_files_types[of "(etype entry, cit entry, status entry)" X fs st2]
      by (auto simp: current_def)
    from ex no_path no_pdf show ?thesis by blast
  qed
  from cur rest show ?thesis by blast
qed

theorem html_cache_is_bound_method_witness:
  "get_expected_files (test_externals request_fails) fs_html
      (test_state (JStr ''new'') (JStr ''.html.gz'') (JStr ''html'')) = Inl (External ''ValueError'')
   \<and> (\<exists>files st'. get_expected_files (lenient_key (test_externals request_fails)) fs_html
          (test_state (JStr ''new'') (JStr ''.html.gz'') (JStr ''html'')) = Inr (files, st')
        \<and> (\<exists>entry\<in>set files. etype entry = ''html-cache'' \<and> cit entry = PyBoundMethod ''html_file'')
        \<and> \<not> (\<exists>entry\<in>set files. etype entry = ''html-cache''
              \<and> cit entry = PyStr ''/cache/ps_cache/arxiv/html/1208/1208.9998v2/''))"
proof -
  let ?X = "lenient_key (test_externals request_fails)"
  let ?st = "test_state (JStr ''new'') (JStr ''.html.gz'') (JStr ''html'')"
  have 1: "is_removed ?X fs_html ?st = (False, ?st)"
    by (simp add: state_defs test_state_def fs_html_def lenient_key_def fixture_defs path_defs)
  have 2: "is_ignored ?X fs_html ?st = Inr False"
    by (simp add: state_defs test_state_def fs_html_def lenient_key_def fixture_defs path_defs)
  have 3: "maybe_update_metadata ?X fs_html ?st = Inr ?st"
    by (simp add: state_defs test_state_def fs_html_def lenient_key_def fixture_defs path_defs)
  have 4: "py_truthy (src_ext ?st)" by (simp add: test_state_def)
  have 5: "source_format ?st = JStr ''html''" by (simp add: test_state_def)
  have g: "\<exists>files st'. get_expected_files ?X fs_html ?st = Inr (files, st')"
    by (simp add: state_defs test_state_def fs_html_def lenient_key_def fixture_defs path_defs)
  then obtain files st' where gf: "get_expected_files ?X fs_html ?st = Inr (files, st')" by blast
  have st': "st' = ?st" using gf
    by (simp add: state_defs test_state_def fs_html_def lenient_key_def fixture_defs path_defs)
  have h: "html_file ?X ?st = ''/cache/ps_cache/arxiv/html/1208/1208.9998v2/''"
    by (simp add: test_state_def lenient_key_def fixture_defs path_defs)
  from html_cache_is_bound_method[OF 1 2 3 4 5] gf st' h
  have b: "(\<exists>entry\<in>set files. etype entry = ''html-cache'' \<and> cit entry = PyBoundMethod ''html_file'')
        \<and> \<not> (\<exists>entry\<in>set files. etype entry = ''html-cache''
              \<and> cit entry = PyStr ''/cache/ps_cache/arxiv/html/1208/1208.9998v2/'')"
    by (metis (no_types, lifting))
  have a: "get_expected_files (test_externals request_fails) fs_html ?st = Inl (External ''ValueError'')"
    by (simp add: state_defs test_state_def fs_html_def fixture_defs path_defs)
  from a gf b show ?thesis by blast
qed

section \<open>Removed, ignored and replaced submissions\<close>


lemma constructed_fresh:
  assumes "SubmissionFilesState X a ver ptype ext fmt = Inr st"
  shows "top_levels st = [] \<and> publish_type st = ptype \<and> src_ext st = ext
         \<and> (\<forall>v. py_int ver = Some v \<longrightarrow> prev_version st = max 1 (v - 1))"
  using assms
  by (auto simp: SubmissionFilesState_def split: option.splits if_splits sum.splits)

lemma scan_source_type_frame:
  "scan_source_type code st = Inr st' \<Longrightarrow>
     xid st' = xid st \<and> vxid st' = vxid st \<and> state_archive st' = state_archive st
     \<and> publish_type st' = publish_type st \<and> prev_version st' = prev_version st
     \<and> src_ext st' = src_ext st \<and> top_levels st' = top_levels st"
proof (induction code arbitrary: st)
  case Nil
  then show ?case by simp
next
  case (Cons c cs)
  show ?case
  proof (cases "flag_to_source_format c")
    case None
    with Cons.prems have "scan_source_type cs st = Inr st'"
      by (simp split: if_splits)
    from Cons.IH[OF this] show ?thesis .
  next
    case (Some f)
    with Cons.prems have "scan_source_type cs (st\<lparr>source_format := JStr f\<rparr>) = Inr st'"
      by simp
    from Cons.IH[OF this] show ?thesis by simp
  qed
qed

lemma maybe_update_metadata_frame:
  assumes "maybe_update_metadata X fs st = Inr st'"
  shows "xid st' = xid st \<and> vxid st' = vxid st \<and> state_archive st' = state_archive st
     \<and> publish_type st' = publish_type st \<and> prev_version st' = prev_version st
     \<and> top_levels st' = top_levels st"
proof -
  define st1 where "st1 =
        (if \<not> py_truthy (src_ext st)
         then (case find (\<lambda>ext. path_exists fs (source_path X st ext)) (ext_candidates st) of
                 Some ext \<Rightarrow> st\<lparr>src_ext := ext\<rparr>
               | None \<Rightarrow> st)
         else st)"
  have f1: "xid st1 = xid st \<and> vxid st1 = vxid st \<and> state_archive st1 = state_archive st
     \<and> publish_type st1 = publish_type st \<and> prev_version st1 = prev_version st
     \<and> top_levels st1 = top_levels st"
    by (simp add: st1_def split: option.splits)
  show ?thesis
  proof (cases "py_truthy (source_format st1)")
    case True
    with assms have "st' = st1"
      by (simp add: maybe_update_metadata_def st1_def[symmetric] Let_def)
    with f1 show ?thesis by simp
  next
    case False
    define r where "r =
       (let dates = (case read_lines fs (source_path X st1 (JStr ''.abs'')) of
                        None \<Rightarrow> []
                      | Some ls \<Rightarrow> date_lines ls)
        in if dates \<noteq> []
               then (case re_date_source_type (last dates) of
                       None \<Rightarrow> Inr st1
                     | Some None \<Rightarrow> Inl TypeError
                     | Some (Some source_type) \<Rightarrow> scan_source_type source_type st1)
               else Inr st1)"
    from assms False obtain st2 where r2: "r = Inr st2"
      by (auto simp: maybe_update_metadata_def st1_def[symmetric] r_def Let_def split: sum.splits)
    have f2: "xid st2 = xid st1 \<and> vxid st2 = vxid st1 \<and> state_archive st2 = state_archive st1
     \<and> publish_type st2 = publish_type st1 \<and> prev_version st2 = prev_version st1
     \<and> top_levels st2 = top_levels st1"
      using r2 scan_source_type_frame[of _ st1 st2]
      by (auto simp: r_def Let_def split: if_splits option.splits)
    from assms False r2
    have "xid st' = xid st2 \<and> vxid st' = vxid st2 \<and> state_archive st' = state_archive st2
     \<and> publish_type st' = publish_type st2 \<and> prev_version st' = prev_version st2
     \<and> top_levels st' = top_levels st2"
      unfolding maybe_update_metadata_def st1_def[symmetric] Let_def
      using r2[unfolded r_def Let_def]
      by (auto split: if_splits sum.splits option.splits format_entry.splits)
    with f1 f2 show ?thesis by simp
  qed
qed



lemma triples_filter2:
  "[(etype e, cit e). e \<leftarrow> files, status e = s]
     = [(fst fe, fst (snd fe)). fe \<leftarrow> map (\<lambda>e. (etype e, cit e, status e)) files, snd (snd fe) = s]"
  by (induction files) auto

lemma obsolete_files_status:
  "fe \<in> set (obsolete_files X fs st) \<Longrightarrow> snd (snd fe) = ''obsolete''"
  by (auto simp: obsolete_files_def obsolete_def split: if_splits option.splits)




lemma get_expected_files_entries:
  assumes "current_files X fs st = Inr (cur, st1)"
    and "get_expected_files X fs st = Inr (files, st')"
  shows "st' = st1 \<and> map (\<lambda>e. (etype e, cit e, status e)) files = cur @ obsolete_files X fs st1"
  using assms add_gcp_keeps[of X "cur @ obsolete_files X fs st1" files]
  by (auto simp: get_expected_files_def split: sum.splits)








lemma current_files_frame:
  assumes "current_files X fs st = Inr (cur, st1)"
  shows "xid st1 = xid st \<and> state_archive st1 = state_archive st
         \<and> publish_type st1 = publish_type st \<and> prev_version st1 = prev_version st
         \<and> (\<forall>fe\<in>set cur. snd (snd fe) = ''current'')"
proof -
  define st0 where "st0 = get_tgz_top_levels X fs st"
  have f0: "xid st0 = xid st \<and> vxid st0 = vxid st \<and> state_archive st0 = state_archive st
         \<and> publish_type st0 = publish_type st \<and> prev_version st0 = prev_version st"
    by (simp add: st0_def get_tgz_top_levels_def split: option.splits)
  have r: "is_removed X fs st = (''removed.txt'' \<in> set (top_levels st0), st0)"
    by (simp add: is_removed_def st0_def Let_def)
  show ?thesis
  proof (cases "''removed.txt'' \<in> set (top_levels st0)")
    case True
    with assms r f0 show ?thesis
      by (auto simp: current_files_def current_def)
  next
    case False
    note nr = this
    show ?thesis
    proof (cases "is_ignored X fs st0")
      case (Inl e)
      with assms r nr show ?thesis by (simp add: current_files_def)
    next
      case (Inr ign)
      show ?thesis
      proof (cases ign)
        case True
        with assms r nr Inr f0 show ?thesis
          by (auto simp: current_files_def current_def)
      next
        case False
        with assms r nr Inr obtain st2 where m: "maybe_update_metadata X fs st0 = Inr st2"
          by (auto simp: current_files_def split: sum.splits)
        from maybe_update_metadata_frame[OF m] f0
        have f2: "xid st2 = xid st \<and> state_archive st2 = state_archive st
         \<and> publish_type st2 = publish_type st \<and> prev_version st2 = prev_version st" by simp
        from assms r nr Inr False m have "st1 = st2 \<and> (\<forall>fe\<in>set cur. snd (snd fe) = ''current'')"
          by (auto simp: current_files_def current_def Let_def split: sum.splits bool.splits if_splits)
        with f2 show ?thesis by simp
      qed
    qed
  qed
qed

lemma filter_none:
  "\<forall>fe\<in>set cur. snd (snd fe) = ''current''
     \<Longrightarrow> [(fst fe, fst (snd fe)). fe \<leftarrow> cur, snd (snd fe) = ''obsolete''] = []"
  by (induction cur) auto

text \<open>
  C7. For the state built from an event with version \<open>v\<close>, the obsolete entries of a set
  \<^verbatim>\<open>get_expected_files\<close> returns are, for the types \<^verbatim>\<open>rep\<close> and \<^verbatim>\<open>wdr\<close>, an abstract and
  one submission, both under the previous-version path with version \<open>max 1 (v - 1)\<close>; the
  extension of the submission is the first of the priority list whose previous-version
  path exists, and the current \<^verbatim>\<open>src_ext\<close> when none does. For every other type there
  is no obsolete entry.
\<close>

theorem obsolete_entries:
  assumes "SubmissionFilesState X a ver ptype ext fmt = Inr st"
    and "py_int ver = Some v"
    and "get_expected_files X fs st = Inr (files, st')"
  shows "let prev = (\<lambda>dotext. ORIG_PREFIX X @ state_archive st @ ''/papers/'' @ yymm (xid st)
                       @ ''/'' @ filename (xid st) @ ''v'' @ py_str_int (max 1 (v - 1))
                       @ py_str X dotext)
         in [(etype e, cit e). e \<leftarrow> files, status e = ''obsolete'']
            = (if ptype = JStr ''rep'' \<or> ptype = JStr ''wdr''
               then [(''abstract'', PyStr (prev (JStr ''.abs''))),
                     (''submission'',
                      PyStr (prev (case find (\<lambda>d. path_exists fs (prev (JStr d)))
                                          [''.tar.gz'', ''.gz'', ''.pdf'', ''.html.gz''] of
                                     Some d \<Rightarrow> JStr d
                                   | None \<Rightarrow> src_ext st')))]
               else [])"
proof -
  from assms(3) obtain cur st1 where cur: "current_files X fs st = Inr (cur, st1)"
    by (auto simp: get_expected_files_def split: sum.splits)
  from get_expected_files_entries[OF cur assms(3)]
  have st': "st' = st1"
    and m: "map (\<lambda>e. (etype e, cit e, status e)) files = cur @ obsolete_files X fs st1" by auto
  from current_files_frame[OF cur] constructed_fresh[OF assms(1)] assms(2)
  have fr: "xid st1 = xid st" "state_archive st1 = state_archive st" "publish_type st1 = ptype"
    "prev_version st1 = max 1 (v - 1)" "\<forall>fe\<in>set cur. snd (snd fe) = ''current''" by auto
  have p: "prev_source_path X st1 d = ORIG_PREFIX X @ state_archive st @ ''/papers/'' @ yymm (xid st)
                       @ ''/'' @ filename (xid st) @ ''v'' @ py_str_int (max 1 (v - 1))
                       @ py_str X d" for d
    by (simp add: prev_source_path_def versioned_parent_def fr)
  have "[(etype e, cit e). e \<leftarrow> files, status e = ''obsolete'']
     = [(fst fe, fst (snd fe)). fe \<leftarrow> obsolete_files X fs st1, snd (snd fe) = ''obsolete'']"
    by (simp add: triples_filter2 m filter_none[OF fr(5)])
  then show ?thesis
    by (auto simp: Let_def obsolete_files_def obsolete_def fr(3) p st' submission_exts_def
             split: option.splits)
qed

theorem obsolete_entries_witness:
  "(\<exists>files st'. get_expected_files (test_externals request_fails) fs_replaced
        (test_state (JStr ''rep'') (JStr ''.pdf'') (JStr ''pdf'')) = Inr (files, st')
      \<and> [(etype e, cit e). e \<leftarrow> files, status e = ''obsolete'']
          = [(''abstract'', PyStr ''/data/orig/arxiv/papers/1208/1208.9998v1.abs''),
             (''submission'', PyStr ''/data/orig/arxiv/papers/1208/1208.9998v1.gz'')])
   \<and> (\<exists>files st'. get_expected_files (test_externals request_fails) fs_replaced
        (test_state (JStr ''new'') (JStr ''.pdf'') (JStr ''pdf'')) = Inr (files, st')
      \<and> [(etype e, cit e). e \<leftarrow> files, status e = ''obsolete''] = [])"
proof -
  let ?X = "test_externals request_fails"
  have v: "py_int (JInt 2) = Some 2" by simp
  have e1: "\<exists>files st'. get_expected_files ?X fs_replaced
        (test_state (JStr ''rep'') (JStr ''.pdf'') (JStr ''pdf'')) = Inr (files, st')
        \<and> src_ext st' = JStr ''.pdf''"
    by (simp add: state_defs test_state_def fs_replaced_def fixture_defs path_defs)
  then obtain files1 st1 where g1: "get_expected_files ?X fs_replaced
        (test_state (JStr ''rep'') (JStr ''.pdf'') (JStr ''pdf'')) = Inr (files1, st1)" by blast
  have e2: "\<exists>files st'. get_expected_files ?X fs_replaced
        (test_state (JStr ''new'') (JStr ''.pdf'') (JStr ''pdf'')) = Inr (files, st')"
    by (simp add: state_defs test_state_def fs_replaced_def fixture_defs path_defs)
  then obtain files2 st2 where g2: "get_expected_files ?X fs_replaced
        (test_state (JStr ''new'') (JStr ''.pdf'') (JStr ''pdf'')) = Inr (files2, st2)" by blast
  from obsolete_entries[OF test_state_constructed v g1]
  have 1: "[(etype e, cit e). e \<leftarrow> files1, status e = ''obsolete'']
          = [(''abstract'', PyStr ''/data/orig/arxiv/papers/1208/1208.9998v1.abs''),
             (''submission'', PyStr ''/data/orig/arxiv/papers/1208/1208.9998v1.gz'')]"
    by (simp add: test_state_def fs_replaced_def fixture_defs path_defs)
  from obsolete_entries[OF test_state_constructed v g2]
  have 2: "[(etype e, cit e). e \<leftarrow> files2, status e = ''obsolete''] = []"
    by simp
  from g1 g2 1 2 show ?thesis by blast
qed

section \<open>Ensuring the rendered PDF\<close>

lemma current_files_shapes:
  assumes "current_files X fs st = Inr (cur, st1)"
  shows "(\<exists>c1 c2. cur = [current ''abstract'' c1, current ''submission'' c2])
       \<or> (\<exists>c1 c2. cur = [current ''abstract'' c1, current ''submission'' c2,
                           current ''pdf-cache'' (PyStr (ps_cache_pdf_file X st1))])
       \<or> (\<exists>c1 c2. cur = [current ''abstract'' c1, current ''submission'' c2,
                           current ''html-cache'' (PyBoundMethod ''html_file'')])"
proof -
  obtain rem st0 where r: "is_removed X fs st = (rem, st0)" by (cases "is_removed X fs st")
  show ?thesis
  proof (cases rem)
    case True
    with assms r show ?thesis by (auto simp: current_files_def)
  next
    case False
    note nr = this
    show ?thesis
    proof (cases "is_ignored X fs st0")
      case (Inl e)
      with assms r nr show ?thesis by (simp add: current_files_def)
    next
      case (Inr ign)
      show ?thesis
      proof (cases ign)
        case True
        with assms r nr Inr show ?thesis by (auto simp: current_files_def)
      next
        case False
        with assms r nr Inr obtain st2 where m: "maybe_update_metadata X fs st0 = Inr st2"
          by (auto simp: current_files_def split: sum.splits)
        from assms r nr Inr False m show ?thesis
          by (auto simp: current_files_def Let_def split: sum.splits bool.splits if_splits)
      qed
    qed
  qed
qed

lemma ensure_entries_skip:
  "\<forall>e\<in>set es. etype e \<noteq> ''pdf-cache'' \<and> etype e \<noteq> ''html-cache''
     \<Longrightarrow> ensure_entries X st tag es w = (None, w)"
  by (induction es arbitrary: w) auto

lemma pdf_entry_shape:
  assumes "get_expected_files X fs st = Inr (files, st')"
    and "entry \<in> set files" and "etype entry = ''pdf-cache''"
  shows "\<exists>a s post. files = [a, s, entry] @ post
           \<and> etype a = ''abstract'' \<and> etype s = ''submission''
           \<and> cit entry = PyStr (ps_cache_pdf_file X st')
           \<and> (\<forall>e\<in>set post. etype e \<noteq> ''pdf-cache'' \<and> etype e \<noteq> ''html-cache'')"
proof -
  from assms(1) obtain cur st1 where cur: "current_files X fs st = Inr (cur, st1)"
    by (auto simp: get_expected_files_def split: sum.splits)
  from get_expected_files_entries[OF cur assms(1)]
  have st': "st' = st1"
    and m: "map (\<lambda>e. (etype e, cit e, status e)) files = cur @ obsolete_files X fs st1" by auto
  have tr: "(etype entry, cit entry, status entry) \<in> set (cur @ obsolete_files X fs st1)"
    using assms(2) m by (metis (mono_tags, lifting) image_eqI list.set_map)
  have obs: "fst fe \<noteq> ''pdf-cache'' \<and> fst fe \<noteq> ''html-cache''"
    if "fe \<in> set (obsolete_files X fs st1)" for fe
    using obsolete_files_types[OF that] by auto
  from tr assms(3) obs have incur: "(etype entry, cit entry, status entry) \<in> set cur"
    by fastforce
  from current_files_shapes[OF cur] incur assms(3) obtain c1 c2 where
    shape: "cur = [current ''abstract'' c1, current ''submission'' c2,
                   current ''pdf-cache'' (PyStr (ps_cache_pdf_file X st1))]"
    by (auto simp: current_def)
  from m shape obtain a s e3 post where
    f: "files = a # s # e3 # post"
    and a: "(etype a, cit a, status a) = current ''abstract'' c1"
    and s: "(etype s, cit s, status s) = current ''submission'' c2"
    and e3: "(etype e3, cit e3, status e3) = current ''pdf-cache'' (PyStr (ps_cache_pdf_file X st1))"
    and post: "map (\<lambda>e. (etype e, cit e, status e)) post = obsolete_files X fs st1"
    by (auto simp: map_eq_Cons_conv)
  have post_types: "etype e \<noteq> ''pdf-cache'' \<and> etype e \<noteq> ''html-cache''" if "e \<in> set post" for e
  proof -
    from that post have "(etype e, cit e, status e) \<in> set (obsolete_files X fs st1)"
      by (metis (mono_tags, lifting) image_eqI list.set_map)
    from obs[OF this] show ?thesis by simp
  qed
  from assms(2,3) f a s post_types have "entry = e3"
    by (auto simp: current_def)
  with f a s e3 post_types st' show ?thesis
    by (auto simp: current_def)
qed

lemma ensure_entries_pdf:
  assumes "get_expected_files X fs st = Inr (files, st')"
    and "entry \<in> set files" and "etype entry = ''pdf-cache''"
  shows "ensure_entries X fstate tag files w
           = ensure_cache X (ensure_pdf X) ''pdf'' fstate tag entry w"
proof -
  from pdf_entry_shape[OF assms] obtain a s post where
    f: "files = [a, s, entry] @ post" and t: "etype a = ''abstract''" "etype s = ''submission''"
    and p: "\<forall>e\<in>set post. etype e \<noteq> ''pdf-cache'' \<and> etype e \<noteq> ''html-cache''" by blast
  show ?thesis
    unfolding f using t assms(3) ensure_entries_skip[OF p]
    by (cases "ensure_cache X (ensure_pdf X) ''pdf'' fstate tag entry w")
       (auto split: option.splits)
qed


lemma callback_nacks_failure:
  assumes "decode_message X m = JObject kvs"
    and "fst (submission_message_to_file_state X (JObject kvs) True w) = Inl e"
  shows "\<exists>w1. submission_callback X m w = (None, emit EvNack w1)"
  using assms
  by (cases "submission_message_to_file_state X (JObject kvs) True w")
     (auto simp: submission_callback_def)

lemma ensure_cache_request_raises:
  assumes "cit entry = PyStr path" and "\<not> path_exists (fsys w) path"
    and "CONCURRENCY_PER_WEBNODE X \<noteq> []"
    and "\<forall>host protocol. \<exists>fs'. request host protocol (vxid fstate) (fsys w) = (Inl err, fs')"
  shows "fst (ensure_cache X request kind fstate tag entry w) = Some err"
proof -
  obtain host n_para w1 where p: "pick_webnode X tag w = Inr ((host, n_para), w1)"
    and w1: "fsys w1 = fsys w"
    using assms(3) by (cases "CONCURRENCY_PER_WEBNODE X ! nat (min (int (length (CONCURRENCY_PER_WEBNODE X)) - 1) (max 0 tag))")
      (auto simp: pick_webnode_def Let_def)
  from assms(4) obtain fs' where
    "request host (if prefix ''localhost:'' host then ''http'' else ''https'') (vxid fstate) (fsys w)
       = (Inl err, fs')" by blast
  with assms(1,2) p w1 show ?thesis
    by (simp add: ensure_cache_def Let_def)
qed

lemma ensure_cache_still_missing:
  assumes "cit entry = PyStr path" and "\<not> path_exists (fsys w) path"
    and "CONCURRENCY_PER_WEBNODE X \<noteq> []"
    and "\<forall>host protocol. \<exists>fs'. request host protocol (vxid fstate) (fsys w) = (Inr (), fs')
            \<and> \<not> path_exists fs' path"
  shows "fst (ensure_cache X request kind fstate tag entry w) = Some MissingGeneratedFile"
proof -
  obtain host n_para w1 where p: "pick_webnode X tag w = Inr ((host, n_para), w1)"
    and w1: "fsys w1 = fsys w"
    using assms(3) by (cases "CONCURRENCY_PER_WEBNODE X ! nat (min (int (length (CONCURRENCY_PER_WEBNODE X)) - 1) (max 0 tag))")
      (auto simp: pick_webnode_def Let_def)
  from assms(4) obtain fs' where
    "request host (if prefix ''localhost:'' host then ''http'' else ''https'') (vxid fstate) (fsys w)
       = (Inr (), fs')" "\<not> path_exists fs' path" by blast
  with assms(1,2) p w1 show ?thesis
    by (simp add: ensure_cache_def Let_def emit_def)
qed

text \<open>
  C1, as the code has it. When the set holds a \<^verbatim>\<open>pdf-cache\<close> entry whose file is absent
  and the table of hosts is not empty, the request is made. If it raises, the handler of
  \<^verbatim>\<open>submission_message_to_file_state\<close> logs the exception and raises it again: that same
  exception leaves the function. \<^verbatim>\<open>MissingGeneratedFile\<close> leaves it when the request
  returns and the file is still absent. In both cases \<^verbatim>\<open>submission_callback\<close> nacks.
\<close>

theorem ensure_failure_propagates:
  assumes "SubmissionFilesState X (dict_get kvs ''paper_id'' JNull)
             (dict_get kvs ''version'' JNull) (dict_get kvs ''type'' JNull)
             (dict_get kvs ''src_ext'' JNull) (dict_get kvs ''source_format'' (JStr [])) = Inr st"
    and "get_expected_files X (fsys w) st = Inr (files, st')"
    and "entry \<in> set files" and "etype entry = ''pdf-cache''"
    and "\<not> path_exists (fsys w) (ps_cache_pdf_file X st')"
    and "CONCURRENCY_PER_WEBNODE X \<noteq> []"
  shows "((\<forall>host protocol. \<exists>fs'. ensure_pdf X host protocol (vxid st') (fsys w) = (Inl err, fs'))
            \<longrightarrow> fst (submission_message_to_file_state X (JObject kvs) True w) = Inl err
                \<and> (decode_message X m = JObject kvs
                     \<longrightarrow> (\<exists>w1. submission_callback X m w = (None, emit EvNack w1))))
         \<and> ((\<forall>host protocol. \<exists>fs'. ensure_pdf X host protocol (vxid st') (fsys w) = (Inr (), fs')
                 \<and> \<not> path_exists fs' (ps_cache_pdf_file X st'))
            \<longrightarrow> fst (submission_message_to_file_state X (JObject kvs) True w)
                  = Inl MissingGeneratedFile
                \<and> (decode_message X m = JObject kvs
                     \<longrightarrow> (\<exists>w1. submission_callback X m w = (None, emit EvNack w1))))"
proof -
  note shape = pdf_entry_shape[OF assms(2,3,4)]
  then have c: "cit entry = PyStr (ps_cache_pdf_file X st')" by blast
  have ee: "ensure_entries X st' tag files w
             = ensure_cache X (ensure_pdf X) ''pdf'' st' tag entry w" for tag
    by (rule ensure_entries_pdf[OF assms(2,3,4)])
  have res: "fst (submission_message_to_file_state X (JObject kvs) True w) = Inl e"
    if "fst (ensure_cache X (ensure_pdf X) ''pdf'' st' (WEBNODE_REQUEST_COUNT w) entry w) = Some e"
    for e
    using that assms(1,2) ee[of "WEBNODE_REQUEST_COUNT w"]
    by (cases "ensure_cache X (ensure_pdf X) ''pdf'' st' (WEBNODE_REQUEST_COUNT w) entry w")
       (simp add: submission_message_to_file_state_def Let_def)
  have A: "fst (submission_message_to_file_state X (JObject kvs) True w) = Inl err"
    if "\<forall>host protocol. \<exists>fs'. ensure_pdf X host protocol (vxid st') (fsys w) = (Inl err, fs')"
    using res[OF ensure_cache_request_raises[where request="ensure_pdf X" and fstate="st'", OF c assms(5,6) that]] .
  have B: "fst (submission_message_to_file_state X (JObject kvs) True w) = Inl MissingGeneratedFile"
    if "\<forall>host protocol. \<exists>fs'. ensure_pdf X host protocol (vxid st') (fsys w) = (Inr (), fs')
                 \<and> \<not> path_exists fs' (ps_cache_pdf_file X st')"
    using res[OF ensure_cache_still_missing[where request="ensure_pdf X" and fstate="st'", OF c assms(5,6) that]] .
  from A B callback_nacks_failure[of X m kvs w] show ?thesis by blast
qed

text \<open>
  The claim as the spec states it fails: the PDF is absent, the request raises a
  connection error, and what leaves the function is the connection error, not
  \<^verbatim>\<open>MissingGeneratedFile\<close>.
\<close>

theorem ensure_failure_counterexample:
  "fst (submission_message_to_file_state (test_externals request_fails) (JObject msg_tex) True
          (mk_world fs_tex []))
     = Inl (External ''ConnectionError'')
   \<and> \<not> path_exists fs_tex ''/cache/ps_cache/arxiv/pdf/1208/1208.9998v2.pdf''
   \<and> fst (ensure_pdf (test_externals request_fails) ''web1'' ''https'' paper_v2 fs_tex)
        = Inl (External ''ConnectionError'')
   \<and> fst (submission_message_to_file_state (test_externals request_fails) (JObject msg_tex) True
          (mk_world fs_tex []))
     \<noteq> Inl MissingGeneratedFile"
  by (simp add: msg_tex_def fs_tex_def path_defs fixture_defs state_defs ensure_defs int_eval)

theorem ensure_failure_propagates_witness:
  "fst (submission_message_to_file_state (test_externals request_fails) (JObject msg_tex) True
          (mk_world fs_tex []))
     = Inl (External ''ConnectionError'')
   \<and> fst (submission_message_to_file_state (test_externals request_idle) (JObject msg_tex) True
          (mk_world fs_tex []))
     = Inl MissingGeneratedFile"
proof -
  let ?w = "mk_world fs_tex []"
  let ?st = "test_state (JStr ''new'') (JStr ''.tar.gz'') (JStr ''tex'')"
  have con: "SubmissionFilesState (test_externals r) (dict_get msg_tex ''paper_id'' JNull)
             (dict_get msg_tex ''version'' JNull) (dict_get msg_tex ''type'' JNull)
             (dict_get msg_tex ''src_ext'' JNull) (dict_get msg_tex ''source_format'' (JStr []))
           = Inr ?st" for r
    using test_state_constructed[of r "JStr ''new''" "JStr ''.tar.gz''" "JStr ''tex''"]
    by (simp add: msg_tex_def dict_get_def)
  have gef: "\<exists>files. get_expected_files (test_externals r) (fsys ?w) ?st = Inr (files, ?st\<lparr>top_levels := [''main.tex'']\<rparr>)
       \<and> (\<exists>entry\<in>set files. etype entry = ''pdf-cache'')" for r
    by (simp add: state_defs test_state_def fs_tex_def fixture_defs path_defs)
  have absent: "\<not> path_exists (fsys ?w) (ps_cache_pdf_file (test_externals r) (?st\<lparr>top_levels := [''main.tex'']\<rparr>))" for r
    by (simp add: test_state_def fs_tex_def fixture_defs path_defs)
  have hosts: "CONCURRENCY_PER_WEBNODE (test_externals r) \<noteq> []" for r
    by (simp add: test_externals_def)
  have f: "\<forall>host protocol. \<exists>fs'. ensure_pdf (test_externals request_fails) host protocol
              (vxid (?st\<lparr>top_levels := [''main.tex'']\<rparr>)) (fsys ?w) = (Inl (External ''ConnectionError''), fs')"
    by (simp add: test_externals_def request_fails_def)
  have i: "\<forall>host protocol. \<exists>fs'. ensure_pdf (test_externals request_idle) host protocol
              (vxid (?st\<lparr>top_levels := [''main.tex'']\<rparr>)) (fsys ?w) = (Inr (), fs')
            \<and> \<not> path_exists fs' (ps_cache_pdf_file (test_externals request_idle) (?st\<lparr>top_levels := [''main.tex'']\<rparr>))"
    by (simp add: test_externals_def request_idle_def test_state_def fs_tex_def fixture_defs path_defs)
  from gef[of request_fails] obtain files1 entry1 where
    g1: "get_expected_files (test_externals request_fails) (fsys ?w) ?st = Inr (files1, ?st\<lparr>top_levels := [''main.tex'']\<rparr>)"
    and e1: "entry1 \<in> set files1" "etype entry1 = ''pdf-cache''" by blast
  from gef[of request_idle] obtain files2 entry2 where
    g2: "get_expected_files (test_externals request_idle) (fsys ?w) ?st = Inr (files2, ?st\<lparr>top_levels := [''main.tex'']\<rparr>)"
    and e2: "entry2 \<in> set files2" "etype entry2 = ''pdf-cache''" by blast
  from ensure_failure_propagates[OF con g1 e1 absent hosts] f
  have 1: "fst (submission_message_to_file_state (test_externals request_fails) (JObject msg_tex) True ?w)
     = Inl (External ''ConnectionError'')" by blast
  from ensure_failure_propagates[OF con g2 e2 absent hosts] i
  have 2: "fst (submission_message_to_file_state (test_externals request_idle) (JObject msg_tex) True ?w)
     = Inl MissingGeneratedFile" by blast
  from 1 2 show ?thesis by blast
qed

section \<open>Reconciling a store that is already synced\<close>

lemma unchanged_same: "unchanged X c c"
  by (simp add: unchanged_def split: option.splits)

lemma upload_synced:
  assumes "file_bytes (fsys w) p = Some c" and "map_of (bucket w) k = Some c"
  shows "upload X p k w = (None, emit (EvSkip k) w)"
  using assms by (simp add: upload_def unchanged_same)

lemma remaining_objects_set:
  "distinct objs \<Longrightarrow>
     distinct (remaining_objects desired objs)
     \<and> set (remaining_objects desired objs) = set objs - gcp ` set desired"
proof (induction desired arbitrary: objs)
  case Nil
  then show ?case by simp
next
  case (Cons entry rest)
  let ?objs = "if gcp entry \<in> set objs then remove1 (gcp entry) objs else objs"
  from Cons.prems have d: "distinct ?objs" by simp
  from Cons.prems have s: "set ?objs = set objs - {gcp entry}" by auto
  from Cons.IH[OF d] s show ?case by auto
qed

lemma upload_entries_synced:
  assumes "\<forall>entry\<in>set desired. \<exists>p c. cit entry = PyStr p \<and> file_bytes (fsys w) p = Some c
              \<and> map_of (bucket w) (gcp entry) = Some c"
  shows "upload_entries X desired objs w
           = (Inr (remaining_objects desired objs),
              w\<lparr>trace := trace w @ map (\<lambda>entry. EvSkip (gcp entry)) desired\<rparr>)"
  using assms
proof (induction desired arbitrary: objs w)
  case Nil
  then show ?case by simp
next
  case (Cons entry rest)
  from Cons.prems obtain p c where e: "cit entry = PyStr p" "file_bytes (fsys w) p = Some c"
    "map_of (bucket w) (gcp entry) = Some c" by auto
  let ?w1 = "emit (EvSkip (gcp entry)) w"
  have u: "upload X p (gcp entry) w = (None, ?w1)" by (rule upload_synced[OF e(2,3)])
  have pre: "\<forall>entry\<in>set rest. \<exists>p c. cit entry = PyStr p \<and> file_bytes (fsys ?w1) p = Some c
              \<and> map_of (bucket ?w1) (gcp entry) = Some c"
    using Cons.prems by (simp add: emit_def)
  from Cons.IH[OF pre] e(1) u show ?case
    by (simp add: emit_def)
qed

text \<open>
  C5. The store is synced to the desired state when every entry's key holds the bytes of
  the entry's local file and every key listed under the paper's prefix is the key of an
  entry (the keys of a bucket are distinct). Then \<^verbatim>\<open>sync_to_gcp\<close> returns with the world
  as it was but for the trace, which grows by the listing and one skipped upload per
  entry: no bytes are transferred and nothing is renamed.
\<close>

theorem reconcile_idempotent:
  assumes "get_expected_files X (fsys w) st = Inr (desired, st')"
    and "path_to_bucket_key X (PyStr (source_path X st' (JStr []))) = Inr gcp_path"
    and "distinct (map fst (bucket w))"
    and "\<forall>entry\<in>set desired. \<exists>p c. cit entry = PyStr p \<and> file_bytes (fsys w) p = Some c
              \<and> map_of (bucket w) (gcp entry) = Some c"
    and "\<forall>k\<in>set (list_bucket_objects w gcp_path). k \<in> gcp ` set desired"
  shows "reconcile X desired gcp_path w
           = (None, w\<lparr>trace := trace w @ EvList gcp_path
                                  # map (\<lambda>entry. EvSkip (gcp entry)) desired\<rparr>)
         \<and> sync_to_gcp X st w
           = (None, w\<lparr>trace := trace w @ EvList gcp_path
                                  # map (\<lambda>entry. EvSkip (gcp entry)) desired\<rparr>)"
proof -
  let ?objs = "list_bucket_objects w gcp_path"
  let ?w0 = "emit (EvList gcp_path) w"
  have d: "distinct ?objs"
    using assms(3) by (simp add: list_bucket_objects_def)
  from remaining_objects_set[OF d, of desired] assms(5)
  have "set (remaining_objects desired ?objs) = {}" by auto
  then have r: "remaining_objects desired ?objs = []" by simp
  have pre: "\<forall>entry\<in>set desired. \<exists>p c. cit entry = PyStr p \<and> file_bytes (fsys ?w0) p = Some c
              \<and> map_of (bucket ?w0) (gcp entry) = Some c"
    using assms(4) by (simp add: emit_def)
  have rec: "reconcile X desired gcp_path w
           = (None, w\<lparr>trace := trace w @ EvList gcp_path
                                  # map (\<lambda>entry. EvSkip (gcp entry)) desired\<rparr>)"
    by (simp add: reconcile_def upload_entries_synced[OF pre] r) (simp add: emit_def)
  with assms(1,2) show ?thesis by (simp add: sync_to_gcp_def)
qed


lemma desired_pdf_expected:
  "get_expected_files (test_externals r) fs_pdf (test_state (JStr ''new'') (JStr ''.pdf'') (JStr ''pdf''))
     = Inr (desired_pdf, test_state (JStr ''new'') (JStr ''.pdf'') (JStr ''pdf''))"
  by (simp add: desired_pdf_def state_defs test_state_def fs_pdf_def fixture_defs path_defs)

lemma prefix_pdf:
  "path_to_bucket_key (test_externals r)
     (PyStr (source_path (test_externals r) (test_state (JStr ''new'') (JStr ''.pdf'') (JStr ''pdf''))
        (JStr [])))
     = Inr ''ftp/arxiv/papers/1208/1208.9998''"
  by (simp add: test_state_def fixture_defs path_defs)

theorem reconcile_idempotent_witness:
  "sync_to_gcp (test_externals request_fails) (test_state (JStr ''new'') (JStr ''.pdf'') (JStr ''pdf''))
      (mk_world fs_pdf bucket_synced)
    = (None, (mk_world fs_pdf bucket_synced)
               \<lparr>trace := [EvList ''ftp/arxiv/papers/1208/1208.9998'',
                          EvSkip ''ftp/arxiv/papers/1208/1208.9998.abs'',
                          EvSkip ''ftp/arxiv/papers/1208/1208.9998.pdf'']\<rparr>)"
proof -
  let ?X = "test_externals request_fails"
  let ?st = "test_state (JStr ''new'') (JStr ''.pdf'') (JStr ''pdf'')"
  let ?w = "mk_world fs_pdf bucket_synced"
  have g: "get_expected_files ?X (fsys ?w) ?st = Inr (desired_pdf, ?st)"
    using desired_pdf_expected[of request_fails] by (simp add: mk_world_def)
  have d: "distinct (map fst (bucket ?w))"
    by (simp add: mk_world_def bucket_synced_def)
  have s: "\<forall>entry\<in>set desired_pdf. \<exists>p c. cit entry = PyStr p \<and> file_bytes (fsys ?w) p = Some c
              \<and> map_of (bucket ?w) (gcp entry) = Some c"
    by (simp add: desired_pdf_def mk_world_def fs_pdf_def mk_fs_def bucket_synced_def)
  have n: "\<forall>k\<in>set (list_bucket_objects ?w ''ftp/arxiv/papers/1208/1208.9998'').
             k \<in> gcp ` set desired_pdf"
    by (simp add: list_bucket_objects_def desired_pdf_def mk_world_def bucket_synced_def)
  from reconcile_idempotent[OF g prefix_pdf d s n] show ?thesis
    by (simp add: desired_pdf_def mk_world_def)
qed

end
